theory Spec2Isabelle
  imports Complex_Main "HOL-Library.AList"
begin

section \<open>Keypoint convention tables (openpose.py)\<close>

text \<open>
  A keypoint convention is a Python list of names. The four literal lists of the module
  are copied entry by entry, in the order of the source file. The fifth convention,
  \<open>OPENPOSE_137_KEYPOINTS\<close>, is not a literal: the module builds it from two slices of
  \<open>OPENPOSE_JOINTS\<close> with the feet names spliced in between. The slice \<open>xs[:19]\<close> is
  \<open>take 19 xs\<close> and \<open>xs[19:]\<close> is \<open>drop 19 xs\<close>.
\<close>

definition OPENPOSE_135_KEYPOINTS :: "string list" where
  "OPENPOSE_135_KEYPOINTS =
  [''nose'', ''left_eye'', ''right_eye'', ''left_ear'', ''right_ear'', ''left_shoulder'',
   ''right_shoulder'', ''left_elbow'', ''right_elbow'', ''left_wrist'', ''right_wrist'',
   ''left_hip'', ''right_hip'', ''left_knee'', ''right_knee'', ''left_ankle'',
   ''right_ankle'', ''neck'', ''head'', ''left_bigtoe'', ''left_smalltoe'', ''left_heel'',
   ''right_bigtoe'', ''right_smalltoe'', ''right_heel'', ''left_thumb_1'',
   ''left_thumb_2'', ''left_thumb_3'', ''left_thumb'', ''left_index_1'', ''left_index_2'',
   ''left_index_3'', ''left_index'', ''left_middle_1'', ''left_middle_2'',
   ''left_middle_3'', ''left_middle'', ''left_ring_1'', ''left_ring_2'', ''left_ring_3'',
   ''left_ring'', ''left_pinky_1'', ''left_pinky_2'', ''left_pinky_3'', ''left_pinky'',
   ''right_thumb_1'', ''right_thumb_2'', ''right_thumb_3'', ''right_thumb'',
   ''right_index_1'', ''right_index_2'', ''right_index_3'', ''right_index'',
   ''right_middle_1'', ''right_middle_2'', ''right_middle_3'', ''right_middle'',
   ''right_ring_1'', ''right_ring_2'', ''right_ring_3'', ''right_ring'', ''right_pinky_1'',
   ''right_pinky_2'', ''right_pinky_3'', ''right_pinky'', ''right_contour_1'',
   ''right_contour_2'', ''right_contour_3'', ''right_contour_4'', ''right_contour_5'',
   ''right_contour_6'', ''right_contour_7'', ''right_contour_8'', ''contour_middle'',
   ''left_contour_8'', ''left_contour_7'', ''left_contour_6'', ''left_contour_5'',
   ''left_contour_4'', ''left_contour_3'', ''left_contour_2'', ''left_contour_1'',
   ''right_eyebrow_1'', ''right_eyebrow_2'', ''right_eyebrow_3'', ''right_eyebrow_4'',
   ''right_eyebrow_5'', ''left_eyebrow_5'', ''left_eyebrow_4'', ''left_eyebrow_3'',
   ''left_eyebrow_2'', ''left_eyebrow_1'', ''nosebridge_1'', ''nosebridge_2'',
   ''nosebridge_3'', ''nosebridge_4'', ''right_nose_2'', ''right_nose_1'', ''nose_middle'',
   ''left_nose_1'', ''left_nose_2'', ''right_eye_1'', ''right_eye_2'', ''right_eye_3'',
   ''right_eye_4'', ''right_eye_5'', ''right_eye_6'', ''left_eye_4'', ''left_eye_3'',
   ''left_eye_2'', ''left_eye_1'', ''left_eye_6'', ''left_eye_5'', ''right_mouth_1'',
   ''right_mouth_2'', ''right_mouth_3'', ''mouth_top'', ''left_mouth_3'', ''left_mouth_2'',
   ''left_mouth_1'', ''left_mouth_5'', ''left_mouth_4'', ''mouth_bottom'',
   ''right_mouth_4'', ''right_mouth_5'', ''right_lip_1'', ''right_lip_2'', ''lip_top'',
   ''left_lip_2'', ''left_lip_1'', ''left_lip_3'', ''lip_bottom'', ''right_lip_3'',
   ''right_eyeball'', ''left_eyeball'']"

definition OPENPOSE_25_KEYPOINTS :: "string list" where
  "OPENPOSE_25_KEYPOINTS =
  [''nose_openpose'', ''neck_openpose'', ''right_shoulder_openpose'',
   ''right_elbow_openpose'', ''right_wrist_openpose'', ''left_shoulder_openpose'',
   ''left_elbow_openpose'', ''left_wrist_openpose'', ''pelvis_openpose'',
   ''right_hip_openpose'', ''right_knee_openpose'', ''right_ankle_openpose'',
   ''left_hip_openpose'', ''left_knee_openpose'', ''left_ankle_openpose'',
   ''right_eye_openpose'', ''left_eye_openpose'', ''right_ear_openpose'',
   ''left_ear_openpose'', ''left_bigtoe_openpose'', ''left_smalltoe_openpose'',
   ''left_heel_openpose'', ''right_bigtoe_openpose'', ''right_smalltoe_openpose'',
   ''right_heel_openpose'']"

definition OPENPOSE_118_KEYPOINTS :: "string list" where
  "OPENPOSE_118_KEYPOINTS =
  [''nose_openpose'', ''neck_openpose'', ''right_shoulder_openpose'',
   ''right_elbow_openpose'', ''right_wrist_openpose'', ''left_shoulder_openpose'',
   ''left_elbow_openpose'', ''left_wrist_openpose'', ''pelvis_openpose'',
   ''right_hip_openpose'', ''right_knee_openpose'', ''right_ankle_openpose'',
   ''left_hip_openpose'', ''left_knee_openpose'', ''left_ankle_openpose'',
   ''right_eye_openpose'', ''left_eye_openpose'', ''right_ear_openpose'',
   ''left_ear_openpose'', ''left_bigtoe_openpose'', ''left_smalltoe_openpose'',
   ''left_heel_openpose'', ''right_bigtoe_openpose'', ''right_smalltoe_openpose'',
   ''right_heel_openpose'', ''left_wrist'', ''left_thumb_1'', ''left_thumb_2'',
   ''left_thumb_3'', ''left_thumb'', ''left_index_1'', ''left_index_2'', ''left_index_3'',
   ''left_index'', ''left_middle_1'', ''left_middle_2'', ''left_middle_3'',
   ''left_middle'', ''left_ring_1'', ''left_ring_2'', ''left_ring_3'', ''left_ring'',
   ''left_pinky_1'', ''left_pinky_2'', ''left_pinky_3'', ''left_pinky'', ''right_wrist'',
   ''right_thumb_1'', ''right_thumb_2'', ''right_thumb_3'', ''right_thumb'',
   ''right_index_1'', ''right_index_2'', ''right_index_3'', ''right_index'',
   ''right_middle_1'', ''right_middle_2'', ''right_middle_3'', ''right_middle'',
   ''right_ring_1'', ''right_ring_2'', ''right_ring_3'', ''right_ring'', ''right_pinky_1'',
   ''right_pinky_2'', ''right_pinky_3'', ''right_pinky'', ''right_eyebrow_1'',
   ''right_eyebrow_2'', ''right_eyebrow_3'', ''right_eyebrow_4'', ''right_eyebrow_5'',
   ''left_eyebrow_5'', ''left_eyebrow_4'', ''left_eyebrow_3'', ''left_eyebrow_2'',
   ''left_eyebrow_1'', ''nosebridge_1'', ''nosebridge_2'', ''nosebridge_3'',
   ''nosebridge_4'', ''right_nose_2'', ''right_nose_1'', ''nose_middle'', ''left_nose_1'',
   ''left_nose_2'', ''right_eye_1'', ''right_eye_2'', ''right_eye_3'', ''right_eye_4'',
   ''right_eye_5'', ''right_eye_6'', ''left_eye_4'', ''left_eye_3'', ''left_eye_2'',
   ''left_eye_1'', ''left_eye_6'', ''left_eye_5'', ''right_mouth_1'', ''right_mouth_2'',
   ''right_mouth_3'', ''mouth_top'', ''left_mouth_3'', ''left_mouth_2'', ''left_mouth_1'',
   ''left_mouth_5'', ''left_mouth_4'', ''mouth_bottom'', ''right_mouth_4'',
   ''right_mouth_5'', ''right_lip_1'', ''right_lip_2'', ''lip_top'', ''left_lip_2'',
   ''left_lip_1'', ''left_lip_3'', ''lip_bottom'', ''right_lip_3'']"

definition OPENPOSE_JOINTS :: "string list" where
  "OPENPOSE_JOINTS =
  [''nose'', ''neck'', ''right_shoulder'', ''right_elbow'', ''right_wrist'',
   ''left_shoulder'', ''left_elbow'', ''left_wrist'', ''pelvis'', ''right_hip'',
   ''right_knee'', ''right_ankle'', ''left_hip'', ''left_knee'', ''left_ankle'',
   ''right_eye'', ''left_eye'', ''right_ear'', ''left_ear'', ''left_wrist'',
   ''left_thumb_1'', ''left_thumb_2'', ''left_thumb_3'', ''left_thumb'', ''left_index_1'',
   ''left_index_2'', ''left_index_3'', ''left_index'', ''left_middle_1'',
   ''left_middle_2'', ''left_middle_3'', ''left_middle'', ''left_ring_1'', ''left_ring_2'',
   ''left_ring_3'', ''left_ring'', ''left_pinky_1'', ''left_pinky_2'', ''left_pinky_3'',
   ''left_pinky'', ''right_wrist'', ''right_thumb_1'', ''right_thumb_2'',
   ''right_thumb_3'', ''right_thumb'', ''right_index_1'', ''right_index_2'',
   ''right_index_3'', ''right_index'', ''right_middle_1'', ''right_middle_2'',
   ''right_middle_3'', ''right_middle'', ''right_ring_1'', ''right_ring_2'',
   ''right_ring_3'', ''right_ring'', ''right_pinky_1'', ''right_pinky_2'',
   ''right_pinky_3'', ''right_pinky'', ''right_contour_1'', ''right_contour_2'',
   ''right_contour_3'', ''right_contour_4'', ''right_contour_5'', ''right_contour_6'',
   ''right_contour_7'', ''right_contour_8'', ''contour_middle'', ''left_contour_8'',
   ''left_contour_7'', ''left_contour_6'', ''left_contour_5'', ''left_contour_4'',
   ''left_contour_3'', ''left_contour_2'', ''left_contour_1'', ''right_eye_brow_1'',
   ''right_eye_brow_2'', ''right_eye_brow_3'', ''right_eye_brow_4'', ''right_eye_brow_5'',
   ''left_eye_brow_5'', ''left_eye_brow_4'', ''left_eye_brow_3'', ''left_eye_brow_2'',
   ''left_eye_brow_1'', ''nosebridge_1'', ''nosebridge_2'', ''nosebridge_3'',
   ''nosebridge_4'', ''right_nose_2'', ''right_nose_1'', ''nose_middle'', ''left_nose_1'',
   ''left_nose_2'', ''right_eye_1'', ''right_eye_2'', ''right_eye_3'', ''right_eye_4'',
   ''right_eye_5'', ''right_eye_6'', ''left_eye_4'', ''left_eye_3'', ''left_eye_2'',
   ''left_eye_1'', ''left_eye_6'', ''left_eye_5'', ''right_mouth_1'', ''right_mouth_2'',
   ''right_mouth_3'', ''mouth_top'', ''left_mouth_3'', ''left_mouth_2'', ''left_mouth_1'',
   ''left_mouth_5'', ''left_mouth_4'', ''mouth_bottom'', ''right_mouth_4'',
   ''right_mouth_5'', ''right_lip_1'', ''right_lip_2'', ''lip_top'', ''left_lip_2'',
   ''left_lip_1'', ''left_lip_3'', ''lip_bottom'', ''right_lip_3'',
   ''right_eye_undefined'', ''left_eye_undefined'']"

definition OPENPOSE_FEET_KEYPOINTS :: "string list" where
  "OPENPOSE_FEET_KEYPOINTS =
  [''left_bigtoe'', ''left_smalltoe'', ''left_heel'', ''right_bigtoe'', ''right_smalltoe'',
   ''right_heel'']"

definition OPENPOSE_137_KEYPOINTS :: "string list" where
  "OPENPOSE_137_KEYPOINTS =
     take 19 OPENPOSE_JOINTS @ OPENPOSE_FEET_KEYPOINTS @ drop 19 OPENPOSE_JOINTS"

section \<open>The SPIN configuration (resnet50_spin_pw3d.py)\<close>








section \<open>Errors\<close>

text \<open>
  The Python exceptions the modelled code can raise. A function that may raise returns
  \<open>error + 'a\<close>, with \<open>Inl\<close> for the exception.
\<close>

datatype error =
    IndexError
  | RuntimeError
  | KeyError string
  | UnboundLocalError string
  | TypeError
  | NotImplementedError string

section \<open>The estimator (expressive_mesh_estimator.py)\<close>

subsection \<open>Tensors, masks and the partial operations on them\<close>

text \<open>
  A tensor with a leading batch dimension is the list of its per-sample slices, and each
  slice is again a list along the next dimension. The innermost dimension of a keypoint
  tensor has a fixed size that the code addresses by position, so it is a tuple: a
  predicted 3D keypoint is \<open>(x, y, z)\<close>, a ground-truth 3D keypoint carries its
  confidence as fourth channel, \<open>(x, y, z, c)\<close>, a ground-truth 2D keypoint as third,
  \<open>(x, y, c)\<close>, and a predicted camera is \<open>(scale, tx, ty)\<close>. Tensor entries are real
  numbers and \<open>.float()\<close> is the identity: the rounding, infinities and NaN of 32-bit
  floating point are outside the model. A rotation matrix is a value of an arbitrary
  type \<open>'m\<close>; the code only moves such values around.
\<close>

type_synonym xyz = "real \<times> real \<times> real"
type_synonym xyzc = "real \<times> real \<times> real \<times> real"
type_synonym xy = "real \<times> real"
type_synonym xyc = "real \<times> real \<times> real"
type_synonym cam = "real \<times> real \<times> real"

text \<open>Sequencing of steps that may raise: the first exception ends the computation.\<close>

definition and_then :: "error + 'a \<Rightarrow> ('a \<Rightarrow> error + 'b) \<Rightarrow> error + 'b" where
  "and_then r f = (case r of Inl e \<Rightarrow> Inl e | Inr v \<Rightarrow> f v)"

fun traverse :: "('a \<Rightarrow> error + 'b) \<Rightarrow> 'a list \<Rightarrow> error + 'b list" where
  "traverse f [] = Inr []"
| "traverse f (x # xs) =
     and_then (f x) (\<lambda>y. and_then (traverse f xs) (\<lambda>ys. Inr (y # ys)))"

text \<open>
  \<open>has == 1\<close>. On a tensor of per-sample flags the comparison is elementwise and gives a
  boolean tensor. When \<open>has\<close> is \<open>None\<close> the comparison is Python's own and gives the
  plain \<open>False\<close>, which is the \<open>None\<close> of the model.
\<close>

definition eq_one :: "real list option \<Rightarrow> bool list option" where
  "eq_one has = (case has of None \<Rightarrow> None | Some h \<Rightarrow> Some (map (\<lambda>v. v = 1) h))"

text \<open>
  \<open>x[mask]\<close> with a one-dimensional boolean tensor keeps the samples whose entry is true,
  in order, and raises \<open>IndexError\<close> when the mask is not as long as the batch.
  \<open>x[False]\<close> is an empty tensor (one more leading dimension, of size 0).
\<close>

definition bool_index :: "bool list \<Rightarrow> 'a list \<Rightarrow> error + 'a list" where
  "bool_index idx x =
     (if length idx \<noteq> length x then Inl IndexError
      else Inr (map snd (filter fst (zip idx x))))"

definition opt_bool_index :: "bool list option \<Rightarrow> 'a list \<Rightarrow> error + 'a list" where
  "opt_bool_index idx x = (case idx of None \<Rightarrow> Inr [] | Some m \<Rightarrow> bool_index m x)"

text \<open>
  \<open>.numel()\<close>, the number of scalar entries: \<open>c\<close> per innermost tuple for a keypoint
  tensor, one per entry for a tensor of rows of scalars.
\<close>

definition numel_tuples :: "nat \<Rightarrow> 'a list list \<Rightarrow> nat" where
  "numel_tuples c x = c * sum_list (map length x)"

definition numel :: "real list list \<Rightarrow> nat" where
  "numel x = sum_list (map length x)"

text \<open>
  \<open>x[:, [1, 2], :].mean(dim=1, keepdim=True)\<close> for one sample: the mean of the keypoints
  at positions 1 and 2. Position 2 must exist.
\<close>

definition mean_of_1_and_2 :: "xyz list \<Rightarrow> error + xyz" where
  "mean_of_1_and_2 s =
     (if length s \<le> 2 then Inl IndexError
      else case (s ! 1, s ! 2) of ((x1, y1, z1), (x2, y2, z2)) \<Rightarrow>
        Inr ((x1 + x2) / 2, (y1 + y2) / 2, (z1 + z2) / 2))"

text \<open>\<open>x - pelvis\<close>, with the one pelvis of each sample broadcast over its keypoints.\<close>

definition minus_xyz :: "xyz \<Rightarrow> xyz \<Rightarrow> xyz" where
  "minus_xyz a b = (case (a, b) of ((x1, y1, z1), (x2, y2, z2)) \<Rightarrow> (x1 - x2, y1 - y2, z1 - z2))"

definition subtract_per_sample :: "xyz list list \<Rightarrow> xyz list \<Rightarrow> xyz list list" where
  "subtract_per_sample x pelvis = map (\<lambda>(s, p). map (\<lambda>k. minus_xyz k p) s) (zip x pelvis)"

text \<open>
  \<open>x.view(-1, 3)\<close> on a tensor of per-sample rows of scalars: all entries in storage order,
  cut into rows of three. It raises \<open>RuntimeError\<close> when the number of entries is not a
  multiple of three.
\<close>

fun rows_of_three :: "real list \<Rightarrow> error + xyz list" where
  "rows_of_three [] = Inr []"
| "rows_of_three (a # b # c # r) = and_then (rows_of_three r) (\<lambda>rs. Inr ((a, b, c) # rs))"
| "rows_of_three _ = Inl RuntimeError"

definition view_3 :: "real list list \<Rightarrow> error + xyz list" where
  "view_3 x = rows_of_three (concat x)"

text \<open>
  \<open>r.view(-1, n, 3, 3)\<close> on a list of rotation matrices: consecutive groups of \<open>n\<close>.
  It raises \<open>RuntimeError\<close> when \<open>n\<close> is 0 or does not divide the number of matrices.
\<close>

function chunk :: "nat \<Rightarrow> 'a list \<Rightarrow> 'a list list" where
  "chunk n xs = (if n = 0 \<or> xs = [] then [] else take n xs # chunk n (drop n xs))"
  by pat_completeness auto
termination
  by (relation "measure (\<lambda>(n, xs). length xs)") auto

declare chunk.simps [simp del]

definition view_joints :: "nat \<Rightarrow> 'a list \<Rightarrow> error + 'a list list" where
  "view_joints n r =
     (if n = 0 \<or> length r mod n \<noteq> 0 then Inl RuntimeError else Inr (chunk n r))"

text \<open>
  \<open>x.shape[1]\<close> of a batch-first tensor, read off the first sample. A list does not record
  the shape of an empty batch; there the model gives 0.
\<close>

definition shape_1 :: "'a list list \<Rightarrow> nat" where
  "shape_1 x = (case x of [] \<Rightarrow> 0 | s # _ \<Rightarrow> length s)"

text \<open>
  \<open>x.mean(axis=1)\<close>: the mean of each sample's row. For an empty row floating point
  gives NaN; the division of the reals gives 0.
\<close>

definition mean :: "real list \<Rightarrow> real" where
  "mean xs = sum_list xs / real (length xs)"

subsection \<open>The loss terms\<close>

text \<open>
  The loss modules (\<open>self.loss_keypoints3d\<close> and the others) are built from the
  configuration and are parameters here, as are the two geometry helpers
  \<open>batch_rodrigues\<close> and \<open>weak_perspective_projection\<close>, which the file imports. A loss
  module receives its arguments and returns a scalar or raises. Every function follows
  its source statement by statement, and the text before it names the lines.
\<close>

text \<open>
  Lines 228 to 256. The test of line 241 comes before anything is selected or centred;
  the three selections of lines 245, 246 and 254 use the same mask.
\<close>

definition compute_keypoints3d_loss ::
  "(xyz list list \<Rightarrow> xyz list list \<Rightarrow> xyz list list \<Rightarrow> error + real) \<Rightarrow>
   xyz list list \<Rightarrow> xyzc list list \<Rightarrow> real list option \<Rightarrow> error + real" where
  "compute_keypoints3d_loss loss_keypoints3d pred_keypoints3d gt_keypoints3d has_keypoints3d =
    (let keypoints3d_conf = map (map (\<lambda>(x, y, z, c). (c, c, c))) gt_keypoints3d;
         gt_xyz = map (map (\<lambda>(x, y, z, c). (x, y, z))) gt_keypoints3d
     in and_then (opt_bool_index (eq_one has_keypoints3d) keypoints3d_conf) (\<lambda>checked.
        if numel_tuples 3 checked = 0 then Inr 0
        else
          let target_idxs = eq_one has_keypoints3d
          in and_then (opt_bool_index target_idxs pred_keypoints3d) (\<lambda>pred_sel.
             and_then (opt_bool_index target_idxs gt_xyz) (\<lambda>gt_sel.
             and_then (traverse mean_of_1_and_2 pred_sel) (\<lambda>pred_pelvis.
             let pred_c = subtract_per_sample pred_sel pred_pelvis
             in and_then (traverse mean_of_1_and_2 gt_sel) (\<lambda>gt_pelvis.
             let gt_c = subtract_per_sample gt_sel gt_pelvis
             in and_then (opt_bool_index target_idxs keypoints3d_conf) (\<lambda>weight.
             and_then (loss_keypoints3d pred_c gt_c weight) (\<lambda>loss.
             Inr (loss / real (length gt_c))))))))))"

text \<open>
  Lines 258 to 288. The projection of line 275 and the normalisation of line 280 act on
  the whole batch; the selection of lines 283 to 286 comes after them. The division of
  line 280 is the division of the reals, which gives 0 for \<open>img_res = 1\<close> where floating
  point gives an infinity or NaN.
\<close>

definition compute_keypoints2d_loss ::
  "(xyz list list \<Rightarrow> real list \<Rightarrow> xy list \<Rightarrow> error + xy list list) \<Rightarrow>
   (xy list list \<Rightarrow> xy list list \<Rightarrow> xy list list \<Rightarrow> error + real) \<Rightarrow>
   xyz list list \<Rightarrow> cam list \<Rightarrow> xyc list list \<Rightarrow> int \<Rightarrow> real list option \<Rightarrow> error + real" where
  "compute_keypoints2d_loss weak_perspective_projection loss_keypoints2d
       pred_keypoints3d pred_cam gt_keypoints2d img_res has_keypoints2d =
    (let keypoints2d_conf = map (map (\<lambda>(x, y, c). (c, c))) gt_keypoints2d;
         gt_xy = map (map (\<lambda>(x, y, c). (x, y))) gt_keypoints2d
     in and_then (opt_bool_index (eq_one has_keypoints2d) keypoints2d_conf) (\<lambda>checked.
        if numel_tuples 2 checked = 0 then Inr 0
        else
          and_then (weak_perspective_projection pred_keypoints3d
                      (map (\<lambda>(s, tx, ty). s) pred_cam)
                      (map (\<lambda>(s, tx, ty). (tx, ty)) pred_cam)) (\<lambda>pred_keypoints2d.
          let gt_norm = map (map (\<lambda>(x, y).
                  (2 * x / real_of_int (img_res - 1) - 1, 2 * y / real_of_int (img_res - 1) - 1)))
                gt_xy;
              target_idxs = eq_one has_keypoints2d
          in and_then (opt_bool_index target_idxs pred_keypoints2d) (\<lambda>pred_sel.
             and_then (opt_bool_index target_idxs gt_norm) (\<lambda>gt_sel.
             and_then (opt_bool_index target_idxs keypoints2d_conf) (\<lambda>weight.
             and_then (loss_keypoints2d pred_sel gt_sel weight) (\<lambda>loss.
             Inr (loss / real (length gt_sel)))))))))"

text \<open>Lines 290 to 302.\<close>

definition compute_smplx_body_pose_loss ::
  "(xyz list \<Rightarrow> 'm list) \<Rightarrow> ('m list list \<Rightarrow> 'm list list \<Rightarrow> error + real) \<Rightarrow>
   'm list list \<Rightarrow> real list list \<Rightarrow> real list \<Rightarrow> error + real" where
  "compute_smplx_body_pose_loss batch_rodrigues loss_smplx_body_pose
       pred_rotmat gt_pose has_smplx_body_pose =
    (let num_joints = shape_1 pred_rotmat;
         target_idxs = map (\<lambda>v. v = 1) has_smplx_body_pose
     in and_then (bool_index target_idxs gt_pose) (\<lambda>checked.
        if numel checked = 0 then Inr 0
        else
          and_then (view_3 gt_pose) (\<lambda>rows.
          and_then (view_joints num_joints (batch_rodrigues rows)) (\<lambda>gt_rotmat.
          and_then (bool_index target_idxs pred_rotmat) (\<lambda>pred_sel.
          and_then (bool_index target_idxs gt_rotmat) (\<lambda>gt_sel.
          loss_smplx_body_pose pred_sel gt_sel))))))"

text \<open>Lines 304 to 315.\<close>

definition compute_smplx_global_orient_loss ::
  "(xyz list \<Rightarrow> 'm list) \<Rightarrow> ('m list list \<Rightarrow> 'm list list \<Rightarrow> error + real) \<Rightarrow>
   'm list list \<Rightarrow> real list list \<Rightarrow> real list \<Rightarrow> error + real" where
  "compute_smplx_global_orient_loss batch_rodrigues loss_smplx_global_orient
       pred_rotmat gt_global_orient has_smplx_global_orient =
    (let target_idxs = map (\<lambda>v. v = 1) has_smplx_global_orient
     in and_then (bool_index target_idxs gt_global_orient) (\<lambda>checked.
        if numel checked = 0 then Inr 0
        else
          and_then (view_3 gt_global_orient) (\<lambda>rows.
          and_then (view_joints 1 (batch_rodrigues rows)) (\<lambda>gt_rotmat.
          and_then (bool_index target_idxs pred_rotmat) (\<lambda>pred_sel.
          and_then (bool_index target_idxs gt_rotmat) (\<lambda>gt_sel.
          loss_smplx_global_orient pred_sel gt_sel))))))"

text \<open>
  Lines 317 to 330. \<open>conf.view(-1, 1, 1, 1)\<close> wraps the mean confidence of each sample in
  three dimensions of size 1.
\<close>

definition compute_smplx_jaw_pose_loss ::
  "(xyz list \<Rightarrow> 'm list) \<Rightarrow>
   ('m list list \<Rightarrow> 'm list list \<Rightarrow> real list list list list \<Rightarrow> error + real) \<Rightarrow>
   'm list list \<Rightarrow> real list list \<Rightarrow> real list \<Rightarrow> real list list \<Rightarrow> error + real" where
  "compute_smplx_jaw_pose_loss batch_rodrigues loss_smplx_jaw_pose
       pred_rotmat gt_jaw_pose has_smplx_jaw_pose face_conf =
    (let target_idxs = map (\<lambda>v. v = 1) has_smplx_jaw_pose
     in and_then (bool_index target_idxs gt_jaw_pose) (\<lambda>checked.
        if numel checked = 0 then Inr 0
        else
          and_then (view_3 gt_jaw_pose) (\<lambda>rows.
          and_then (view_joints 1 (batch_rodrigues rows)) (\<lambda>gt_rotmat.
          let conf = map (\<lambda>c. [[[c]]]) (map mean face_conf)
          in and_then (bool_index target_idxs pred_rotmat) (\<lambda>pred_sel.
             and_then (bool_index target_idxs gt_rotmat) (\<lambda>gt_sel.
             and_then (bool_index target_idxs conf) (\<lambda>weight.
             loss_smplx_jaw_pose pred_sel gt_sel weight)))))))"

text \<open>
  Lines 332 to 345. \<open>expand(-1, joint_num)\<close> repeats the mean confidence of each sample
  once per predicted joint, and \<open>view(-1, joint_num, 1, 1)\<close> wraps each copy in two
  dimensions of size 1.
\<close>

definition compute_smplx_hand_pose_loss ::
  "(xyz list \<Rightarrow> 'm list) \<Rightarrow>
   ('m list list \<Rightarrow> 'm list list \<Rightarrow> real list list list list \<Rightarrow> error + real) \<Rightarrow>
   'm list list \<Rightarrow> real list list \<Rightarrow> real list \<Rightarrow> real list list \<Rightarrow> error + real" where
  "compute_smplx_hand_pose_loss batch_rodrigues loss_smplx_hand_pose
       pred_rotmat gt_hand_pose has_smplx_hand_pose hand_conf =
    (let joint_num = shape_1 pred_rotmat;
         target_idxs = map (\<lambda>v. v = 1) has_smplx_hand_pose
     in and_then (bool_index target_idxs gt_hand_pose) (\<lambda>checked.
        if numel checked = 0 then Inr 0
        else
          and_then (view_3 gt_hand_pose) (\<lambda>rows.
          and_then (view_joints joint_num (batch_rodrigues rows)) (\<lambda>gt_rotmat.
          let conf = map (\<lambda>s. map (\<lambda>c. [[c]]) (replicate joint_num (mean s))) hand_conf
          in and_then (bool_index target_idxs pred_rotmat) (\<lambda>pred_sel.
             and_then (bool_index target_idxs gt_rotmat) (\<lambda>gt_sel.
             and_then (bool_index target_idxs conf) (\<lambda>weight.
             loss_smplx_hand_pose pred_sel gt_sel weight)))))))"

text \<open>Lines 348 to 358.\<close>

definition compute_smplx_betas_loss ::
  "(real list list \<Rightarrow> real list list \<Rightarrow> error + real) \<Rightarrow>
   real list list \<Rightarrow> real list list \<Rightarrow> real list \<Rightarrow> error + real" where
  "compute_smplx_betas_loss loss_smplx_betas pred_betas gt_betas has_smplx_betas =
    (let target_idxs = map (\<lambda>v. v = 1) has_smplx_betas
     in and_then (bool_index target_idxs gt_betas) (\<lambda>checked.
        if numel checked = 0 then Inr 0
        else
          and_then (bool_index target_idxs pred_betas) (\<lambda>pred_sel.
          and_then (bool_index target_idxs gt_betas) (\<lambda>gt_sel.
          and_then (loss_smplx_betas pred_sel gt_sel) (\<lambda>loss.
          and_then (bool_index target_idxs gt_betas) (\<lambda>counted.
          Inr (loss / real (length counted))))))))"

text \<open>Lines 365 to 376.\<close>

definition compute_smplx_expression_loss ::
  "(real list list \<Rightarrow> real list list \<Rightarrow> real list list \<Rightarrow> error + real) \<Rightarrow>
   real list list \<Rightarrow> real list list \<Rightarrow> real list \<Rightarrow> real list list \<Rightarrow> error + real" where
  "compute_smplx_expression_loss loss_smplx_expression
       pred_expression gt_expression has_smplx_expression face_conf =
    (let target_idxs = map (\<lambda>v. v = 1) has_smplx_expression
     in and_then (bool_index target_idxs gt_expression) (\<lambda>checked.
        if numel checked = 0 then Inr 0
        else
          let conf = map (\<lambda>c. [c]) (map mean face_conf)
          in and_then (bool_index target_idxs pred_expression) (\<lambda>pred_sel.
             and_then (bool_index target_idxs gt_expression) (\<lambda>gt_sel.
             and_then (bool_index target_idxs conf) (\<lambda>weight.
             and_then (loss_smplx_expression pred_sel gt_sel weight) (\<lambda>loss.
             and_then (bool_index target_idxs gt_expression) (\<lambda>counted.
             Inr (loss / real (length counted)))))))))"

subsection \<open>Dictionaries of the estimator\<close>

text \<open>
  The dictionaries the estimator reads have fixed key sets, so each is a record with one
  optional field per key: \<open>None\<close> is an absent key, and subscripting it raises
  \<open>KeyError\<close>. A pose entry of the predicted parameters is either a tensor of axis-angle
  vectors (three dimensions) or a tensor of rotation matrices (four); \<open>pose2rotmat\<close>
  tells them apart by \<open>len(pred_pose.shape)\<close>.
\<close>

definition lookup :: "string \<Rightarrow> 'a option \<Rightarrow> error + 'a" where
  "lookup k v = (case v of None \<Rightarrow> Inl (KeyError k) | Some x \<Rightarrow> Inr x)"

datatype 'm pose_tensor = AxisAngle "xyz list list" | RotMat "'m list list"

text \<open>Lines 44 to 48.\<close>

definition pose2rotmat :: "(xyz list \<Rightarrow> 'm list) \<Rightarrow> 'm pose_tensor \<Rightarrow> error + 'm list list" where
  "pose2rotmat batch_rodrigues pred_pose =
     (case pred_pose of
        AxisAngle x \<Rightarrow>
          (let num_joints = shape_1 x
           in view_joints num_joints (batch_rodrigues (concat x)))
      | RotMat r \<Rightarrow> Inr r)"

record 'm pred_param =
  global_orient :: "'m pose_tensor option"
  body_pose :: "'m pose_tensor option"
  jaw_pose :: "'m pose_tensor option"
  right_hand_pose :: "'m pose_tensor option"
  left_hand_pose :: "'m pose_tensor option"
  betas :: "real list list option"
  expression :: "real list list option"

record 'm predictions =
  pred_param :: "'m pred_param option"
  pred_cam :: "cam list option"

text \<open>
  The image tensor is its shape together with its contents; the estimator itself reads
  only the shape. A validity flag tensor has one entry per sample and a trailing
  dimension of size 1, which \<open>.squeeze(-1)\<close> removes; the record holds the per-sample
  entries, so that \<open>squeeze(-1)\<close> is the identity on it.
\<close>

record 'i targets =
  img :: "(nat list \<times> 'i) option"
  keypoints3d :: "xyzc list list option"
  keypoints2d :: "xyc list list option"
  has_keypoints3d :: "real list option"
  has_keypoints2d :: "real list option"
  smplx_global_orient :: "real list list option"
  has_smplx_global_orient :: "real list option"
  smplx_body_pose :: "real list list option"
  has_smplx_body_pose :: "real list option"
  smplx_jaw_pose :: "real list list option"
  has_smplx_jaw_pose :: "real list option"
  smplx_right_hand_pose :: "real list list option"
  has_smplx_right_hand_pose :: "real list option"
  smplx_left_hand_pose :: "real list list option"
  has_smplx_left_hand_pose :: "real list option"
  smplx_betas :: "real list list option"
  has_smplx_betas :: "real list option"
  smplx_expression :: "real list list option"
  has_smplx_expression :: "real list option"

record ('i, 'f) data_batch = "'i targets" +
  features :: "'f option"

record body_output =
  joints :: "xyz list list"
  vertices :: "xyz list list"

text \<open>
  The functions the file imports from other modules of the package, and the method
  \<open>_parse_losses\<close> it inherits from \<open>BaseArchitecture\<close>. \<open>num_samples_of\<close> stands for
  \<open>len(next(iter(data_batch.values())))\<close>, which depends on the insertion order of the
  batch dictionary.
\<close>

record ('i, 'f, 'm, 'l) globals =
  batch_rodrigues :: "xyz list \<Rightarrow> 'm list"
  weak_perspective_projection :: "xyz list list \<Rightarrow> real list \<Rightarrow> xy list \<Rightarrow> error + xy list list"
  get_keypoint_idxs_by_part :: "string \<Rightarrow> string \<Rightarrow> error + nat list"
  parse_losses :: "(string \<times> real) list \<Rightarrow> error + real \<times> 'l"
  num_samples_of :: "('i, 'f) data_batch \<Rightarrow> error + nat"

text \<open>
  The estimator object: the modules \<open>__init__\<close> builds, each \<open>None\<close> when its
  configuration is \<open>None\<close>, and the three abstract methods a subclass supplies.
\<close>

record ('i, 'f, 'm, 'd, 's) estimator =
  backbone :: "('i \<Rightarrow> error + 'f) option"
  neck :: "('f \<Rightarrow> error + 'f) option"
  head :: "('f \<Rightarrow> error + 'm predictions) option"
  disc :: "('d \<Rightarrow> error + 's) option"
  body_model_train :: "('m pred_param \<Rightarrow> error + body_output) option"
  convention :: string
  loss_keypoints2d :: "(xy list list \<Rightarrow> xy list list \<Rightarrow> xy list list \<Rightarrow> error + real) option"
  loss_keypoints3d :: "(xyz list list \<Rightarrow> xyz list list \<Rightarrow> xyz list list \<Rightarrow> error + real) option"
  loss_smplx_global_orient :: "('m list list \<Rightarrow> 'm list list \<Rightarrow> error + real) option"
  loss_smplx_body_pose :: "('m list list \<Rightarrow> 'm list list \<Rightarrow> error + real) option"
  loss_smplx_hand_pose ::
    "('m list list \<Rightarrow> 'm list list \<Rightarrow> real list list list list \<Rightarrow> error + real) option"
  loss_smplx_jaw_pose ::
    "('m list list \<Rightarrow> 'm list list \<Rightarrow> real list list list list \<Rightarrow> error + real) option"
  loss_smplx_expression ::
    "(real list list \<Rightarrow> real list list \<Rightarrow> real list list \<Rightarrow> error + real) option"
  loss_smplx_betas :: "(real list list \<Rightarrow> real list list \<Rightarrow> error + real) option"
  loss_smplx_betas_piror :: "(real list list \<Rightarrow> error + real) option"
  loss_adv :: "('s \<Rightarrow> bool \<Rightarrow> bool \<Rightarrow> error + real) option"
  loss_camera :: "(cam list \<Rightarrow> error + real) option"
  prepare_targets :: "('i, 'f) data_batch \<Rightarrow> error + 'i targets"
  make_fake_data :: "'m predictions \<Rightarrow> bool \<Rightarrow> error + 'd"
  make_real_data :: "('i, 'f) data_batch \<Rightarrow> error + 'd"

subsection \<open>compute_losses\<close>

text \<open>
  \<open>gt_keypoints2d[:, idxs, 2]\<close>: for every sample the confidences of the keypoints at the
  given positions; a position beyond the keypoints raises \<open>IndexError\<close>.
\<close>

definition conf_at :: "nat list \<Rightarrow> xyc list list \<Rightarrow> error + real list list" where
  "conf_at idxs gt_keypoints2d =
     traverse (\<lambda>s. traverse (\<lambda>i. if i < length s then
                                     (case s ! i of (x, y, c) \<Rightarrow> Inr c)
                                   else Inl IndexError) idxs)
       gt_keypoints2d"

text \<open>A local variable that was never assigned raises \<open>UnboundLocalError\<close> when read.\<close>

definition local_var :: "string \<Rightarrow> 'a option \<Rightarrow> error + 'a" where
  "local_var name v = (case v of None \<Rightarrow> Inl (UnboundLocalError name) | Some x \<Rightarrow> Inr x)"

text \<open>\<open>t.shape[-1]\<close> of the image tensor.\<close>

definition shape_last :: "nat list \<times> 'i \<Rightarrow> error + int" where
  "shape_last t = (case fst t of [] \<Rightarrow> Inl IndexError | sh \<Rightarrow> Inr (int (last sh)))"

text \<open>
  Lines 383 to 477. \<open>compute_losses\<close> is a sequence of blocks \<open>if self.loss_X is not None: losses[k] = ...\<close>.
  Each block is a function from the dictionary so far to the dictionary after it, in the
  order of the source; a dictionary is the list of its items in insertion order and
  \<open>losses[k] = v\<close> is \<open>AList.update k v\<close>.
\<close>

type_synonym losses = "(string \<times> real) list"

definition keypoints3d_block ::
  "('i, 'f, 'm, 'd, 's) estimator \<Rightarrow> xyz list list option \<Rightarrow> xyzc list list \<Rightarrow>
   real list option \<Rightarrow> losses \<Rightarrow> error + losses" where
  "keypoints3d_block self pred_keypoints3d gt_keypoints3d has losses =
     (case loss_keypoints3d self of
        None \<Rightarrow> Inr losses
      | Some loss_module \<Rightarrow>
          and_then (local_var ''pred_keypoints3d'' pred_keypoints3d) (\<lambda>pred.
          and_then (compute_keypoints3d_loss loss_module pred gt_keypoints3d has) (\<lambda>v.
          Inr (AList.update ''keypoints3d_loss'' v losses))))"

definition keypoints2d_block ::
  "('i, 'f, 'm, 'l) globals \<Rightarrow> ('i, 'f, 'm, 'd, 's) estimator \<Rightarrow> xyz list list option \<Rightarrow>
   cam list \<Rightarrow> xyc list list \<Rightarrow> 'i targets \<Rightarrow> real list option \<Rightarrow> losses \<Rightarrow> error + losses" where
  "keypoints2d_block imp self pred_keypoints3d pc gt_keypoints2d targets has losses =
     (case loss_keypoints2d self of
        None \<Rightarrow> Inr losses
      | Some loss_module \<Rightarrow>
          and_then (local_var ''pred_keypoints3d'' pred_keypoints3d) (\<lambda>pred.
          and_then (lookup ''img'' (img targets)) (\<lambda>image.
          and_then (shape_last image) (\<lambda>img_res.
          and_then (compute_keypoints2d_loss (weak_perspective_projection imp) loss_module
                      pred pc gt_keypoints2d img_res has) (\<lambda>v.
          Inr (AList.update ''keypoints2d_loss'' v losses))))))"

definition global_orient_block ::
  "('i, 'f, 'm, 'l) globals \<Rightarrow> ('i, 'f, 'm, 'd, 's) estimator \<Rightarrow> 'm pred_param \<Rightarrow>
   'i targets \<Rightarrow> losses \<Rightarrow> error + losses" where
  "global_orient_block imp self pp targets losses =
     (case loss_smplx_global_orient self of
        None \<Rightarrow> Inr losses
      | Some loss_module \<Rightarrow>
          and_then (lookup ''global_orient'' (global_orient pp)) (\<lambda>pred_pose.
          and_then (pose2rotmat (batch_rodrigues imp) pred_pose) (\<lambda>pred_global_orient.
          and_then (lookup ''smplx_global_orient'' (smplx_global_orient targets)) (\<lambda>gt.
          and_then (lookup ''has_smplx_global_orient'' (has_smplx_global_orient targets)) (\<lambda>has.
          and_then (compute_smplx_global_orient_loss (batch_rodrigues imp) loss_module
                      pred_global_orient gt has) (\<lambda>v.
          Inr (AList.update ''smplx_global_orient'' v losses)))))))"

definition body_pose_block ::
  "('i, 'f, 'm, 'l) globals \<Rightarrow> ('i, 'f, 'm, 'd, 's) estimator \<Rightarrow> 'm pred_param \<Rightarrow>
   'i targets \<Rightarrow> losses \<Rightarrow> error + losses" where
  "body_pose_block imp self pp targets losses =
     (case loss_smplx_body_pose self of
        None \<Rightarrow> Inr losses
      | Some loss_module \<Rightarrow>
          and_then (lookup ''body_pose'' (body_pose pp)) (\<lambda>pred_pose.
          and_then (pose2rotmat (batch_rodrigues imp) pred_pose) (\<lambda>pred_rotmat.
          and_then (lookup ''smplx_body_pose'' (smplx_body_pose targets)) (\<lambda>gt.
          and_then (lookup ''has_smplx_body_pose'' (has_smplx_body_pose targets)) (\<lambda>has.
          and_then (compute_smplx_body_pose_loss (batch_rodrigues imp) loss_module
                      pred_rotmat gt has) (\<lambda>v.
          Inr (AList.update ''smplx_body_pose_loss'' v losses)))))))"

definition jaw_pose_block ::
  "('i, 'f, 'm, 'l) globals \<Rightarrow> ('i, 'f, 'm, 'd, 's) estimator \<Rightarrow> 'm pred_param \<Rightarrow>
   xyc list list \<Rightarrow> 'i targets \<Rightarrow> losses \<Rightarrow> error + losses" where
  "jaw_pose_block imp self pp gt_keypoints2d targets losses =
     (case loss_smplx_jaw_pose self of
        None \<Rightarrow> Inr losses
      | Some loss_module \<Rightarrow>
          and_then (lookup ''jaw_pose'' (jaw_pose pp)) (\<lambda>pred_pose.
          and_then (pose2rotmat (batch_rodrigues imp) pred_pose) (\<lambda>pred_jaw_pose.
          and_then (lookup ''smplx_jaw_pose'' (smplx_jaw_pose targets)) (\<lambda>gt.
          and_then (get_keypoint_idxs_by_part imp ''head'' (convention self)) (\<lambda>face_conf.
          and_then (lookup ''has_smplx_jaw_pose'' (has_smplx_jaw_pose targets)) (\<lambda>has.
          and_then (conf_at face_conf gt_keypoints2d) (\<lambda>conf.
          and_then (compute_smplx_jaw_pose_loss (batch_rodrigues imp) loss_module
                      pred_jaw_pose gt has conf) (\<lambda>v.
          Inr (AList.update ''smplx_jaw_pose_loss'' v losses)))))))))"

definition hand_pose_block ::
  "('i, 'f, 'm, 'l) globals \<Rightarrow> ('i, 'f, 'm, 'd, 's) estimator \<Rightarrow> 'm pred_param \<Rightarrow>
   xyc list list \<Rightarrow> 'i targets \<Rightarrow> losses \<Rightarrow> error + losses" where
  "hand_pose_block imp self pp gt_keypoints2d targets losses =
     (case loss_smplx_hand_pose self of
        None \<Rightarrow> Inr losses
      | Some loss_module \<Rightarrow>
          and_then (lookup ''right_hand_pose'' (right_hand_pose pp)) (\<lambda>pred_pose.
          and_then (pose2rotmat (batch_rodrigues imp) pred_pose) (\<lambda>pred_right_hand_pose.
          and_then (lookup ''smplx_right_hand_pose'' (smplx_right_hand_pose targets)) (\<lambda>gt.
          and_then (get_keypoint_idxs_by_part imp ''right_hand'' (convention self))
            (\<lambda>right_hand_conf.
          and_then (lookup ''has_smplx_right_hand_pose'' (has_smplx_right_hand_pose targets))
            (\<lambda>has.
          and_then (conf_at right_hand_conf gt_keypoints2d) (\<lambda>conf.
          and_then (compute_smplx_hand_pose_loss (batch_rodrigues imp) loss_module
                      pred_right_hand_pose gt has conf) (\<lambda>v.
          let losses = AList.update ''smplx_right_hand_pose_loss'' v losses
          in case left_hand_pose pp of
               None \<Rightarrow> Inr losses
             | Some pred_pose \<Rightarrow>
                 and_then (pose2rotmat (batch_rodrigues imp) pred_pose) (\<lambda>pred_left_hand_pose.
                 and_then (lookup ''smplx_left_hand_pose'' (smplx_left_hand_pose targets)) (\<lambda>gt.
                 and_then (get_keypoint_idxs_by_part imp ''left_hand'' (convention self))
                   (\<lambda>left_hand_conf.
                 and_then (lookup ''has_smplx_left_hand_pose'' (has_smplx_left_hand_pose targets))
                   (\<lambda>has.
                 and_then (conf_at left_hand_conf gt_keypoints2d) (\<lambda>conf.
                 and_then (compute_smplx_hand_pose_loss (batch_rodrigues imp) loss_module
                             pred_left_hand_pose gt has conf) (\<lambda>v.
                 Inr (AList.update ''smplx_left_hand_pose_loss'' v losses)))))))))))))))"

definition betas_block ::
  "('i, 'f, 'm, 'd, 's) estimator \<Rightarrow> 'm pred_param \<Rightarrow> 'i targets \<Rightarrow> losses \<Rightarrow>
   error + losses" where
  "betas_block self pp targets losses =
     (case loss_smplx_betas self of
        None \<Rightarrow> Inr losses
      | Some loss_module \<Rightarrow>
          and_then (lookup ''betas'' (betas pp)) (\<lambda>pred_betas.
          and_then (lookup ''smplx_betas'' (smplx_betas targets)) (\<lambda>gt_betas.
          and_then (lookup ''has_smplx_betas'' (has_smplx_betas targets)) (\<lambda>has.
          and_then (compute_smplx_betas_loss loss_module pred_betas gt_betas has) (\<lambda>v.
          Inr (AList.update ''smplx_betas_loss'' v losses))))))"

definition expression_block ::
  "('i, 'f, 'm, 'l) globals \<Rightarrow> ('i, 'f, 'm, 'd, 's) estimator \<Rightarrow> 'm pred_param \<Rightarrow>
   xyc list list \<Rightarrow> 'i targets \<Rightarrow> losses \<Rightarrow> error + losses" where
  "expression_block imp self pp gt_keypoints2d targets losses =
     (case loss_smplx_expression self of
        None \<Rightarrow> Inr losses
      | Some loss_module \<Rightarrow>
          and_then (lookup ''expression'' (expression pp)) (\<lambda>pred_expression.
          and_then (lookup ''smplx_expression'' (smplx_expression targets)) (\<lambda>gt_expression.
          and_then (get_keypoint_idxs_by_part imp ''head'' (convention self)) (\<lambda>face_conf.
          and_then (lookup ''has_smplx_expression'' (has_smplx_expression targets)) (\<lambda>has.
          and_then (conf_at face_conf gt_keypoints2d) (\<lambda>conf.
          and_then (compute_smplx_expression_loss loss_module pred_expression gt_expression
                      has conf) (\<lambda>v.
          Inr (AList.update ''smplx_expression_loss'' v losses))))))))"

definition betas_prior_block ::
  "('i, 'f, 'm, 'd, 's) estimator \<Rightarrow> 'm pred_param \<Rightarrow> losses \<Rightarrow> error + losses" where
  "betas_prior_block self pp losses =
     (case loss_smplx_betas_piror self of
        None \<Rightarrow> Inr losses
      | Some loss_module \<Rightarrow>
          and_then (lookup ''betas'' (betas pp)) (\<lambda>pred_betas.
          and_then (loss_module pred_betas) (\<lambda>v.
          Inr (AList.update ''smplx_betas_prior_loss'' v losses))))"

definition camera_block ::
  "('i, 'f, 'm, 'd, 's) estimator \<Rightarrow> cam list \<Rightarrow> losses \<Rightarrow> error + losses" where
  "camera_block self pc losses =
     (case loss_camera self of
        None \<Rightarrow> Inr losses
      | Some loss_module \<Rightarrow>
          and_then (loss_module pc) (\<lambda>v.
          Inr (AList.update ''camera_loss'' v losses)))"

definition compute_losses ::
  "('i, 'f, 'm, 'l) globals \<Rightarrow> ('i, 'f, 'm, 'd, 's) estimator \<Rightarrow> 'm predictions \<Rightarrow>
   'i targets \<Rightarrow> error + losses" where
  "compute_losses imp self predictions targets =
     and_then (lookup ''pred_param'' (pred_param predictions)) (\<lambda>pp.
     and_then (lookup ''pred_cam'' (pred_cam predictions)) (\<lambda>pc.
     and_then (lookup ''keypoints3d'' (keypoints3d targets)) (\<lambda>gt_keypoints3d.
     and_then (lookup ''keypoints2d'' (keypoints2d targets)) (\<lambda>gt_keypoints2d.
     and_then (case body_model_train self of
                 None \<Rightarrow> Inr None
               | Some train_model \<Rightarrow>
                   and_then (train_model pp) (\<lambda>pred_output. Inr (Some (joints pred_output))))
       (\<lambda>pred_keypoints3d.
     and_then (keypoints3d_block self pred_keypoints3d gt_keypoints3d
                 (has_keypoints3d targets) []) (\<lambda>losses.
     and_then (keypoints2d_block imp self pred_keypoints3d pc gt_keypoints2d targets
                 (has_keypoints2d targets) losses) (\<lambda>losses.
     and_then (global_orient_block imp self pp targets losses) (\<lambda>losses.
     and_then (body_pose_block imp self pp targets losses) (\<lambda>losses.
     and_then (jaw_pose_block imp self pp gt_keypoints2d targets losses) (\<lambda>losses.
     and_then (hand_pose_block imp self pp gt_keypoints2d targets losses) (\<lambda>losses.
     and_then (betas_block self pp targets losses) (\<lambda>losses.
     and_then (expression_block imp self pp gt_keypoints2d targets losses) (\<lambda>losses.
     and_then (betas_prior_block self pp losses) (\<lambda>losses.
     camera_block self pc losses))))))))))))))"

subsection \<open>train_step\<close>

text \<open>
  \<open>train_step\<close> calls modules, hooks and optimizers, and those calls change the
  parameters of the networks. The model keeps the list of these calls, oldest first, as
  its state: a step takes the calls made so far and returns its outcome with the calls
  made after it. A call is recorded when it is made, before its outcome is known.
\<close>

datatype event =
    Forward string
  | Prepare_targets
  | Make_fake_data bool
  | Make_real_data
  | Set_requires_grad_disc bool
  | Loss_adv bool bool
  | Parse_losses losses
  | Zero_grad string
  | Backward real
  | Step string

type_synonym 'a action = "event list \<Rightarrow> (error + 'a) \<times> event list"

definition done_with :: "'a \<Rightarrow> 'a action" where
  "done_with v = (\<lambda>t. (Inr v, t))"

definition call :: "event \<Rightarrow> error + 'a \<Rightarrow> 'a action" where
  "call e r = (\<lambda>t. (r, t @ [e]))"

definition result_of :: "error + 'a \<Rightarrow> 'a action" where
  "result_of r = (\<lambda>t. (r, t))"

definition next_do :: "'a action \<Rightarrow> ('a \<Rightarrow> 'b action) \<Rightarrow> 'b action" where
  "next_do m f = (\<lambda>t. case m t of (Inl e, t') \<Rightarrow> (Inl e, t') | (Inr v, t') \<Rightarrow> f v t')"

text \<open>Calling an attribute that is \<open>None\<close> raises \<open>TypeError\<close>.\<close>

definition callable :: "'a option \<Rightarrow> error + 'a" where
  "callable m = (case m of None \<Rightarrow> Inl TypeError | Some f \<Rightarrow> Inr f)"

text \<open>\<open>optimizer[key]\<close>: the optimizer dictionary is the list of its keys.\<close>

definition optimizer_at :: "string list \<Rightarrow> string \<Rightarrow> error + unit" where
  "optimizer_at optimizer key = (if key \<in> set optimizer then Inr () else Inl (KeyError key))"

text \<open>Lines 198 to 216.\<close>

definition optimize_discrinimator ::
  "('i, 'f, 'm, 'l) globals \<Rightarrow> ('i, 'f, 'm, 'd, 's) estimator \<Rightarrow> 'm predictions \<Rightarrow>
   ('i, 'f) data_batch \<Rightarrow> string list \<Rightarrow> unit action" where
  "optimize_discrinimator imp self predictions batch optimizer =
     next_do (call (Set_requires_grad_disc True) (Inr ())) (\<lambda>_.
     next_do (call (Make_fake_data False) (make_fake_data self predictions False)) (\<lambda>fake_data.
     next_do (call Make_real_data (make_real_data self batch)) (\<lambda>real_data.
     next_do (result_of (callable (disc self))) (\<lambda>d.
     next_do (call (Forward ''disc'') (d fake_data)) (\<lambda>fake_score.
     next_do (call (Forward ''disc'') (d real_data)) (\<lambda>real_score.
     next_do (result_of (callable (loss_adv self))) (\<lambda>adv.
     next_do (call (Loss_adv True True) (adv real_score True True)) (\<lambda>real_loss.
     next_do (call (Loss_adv False True) (adv fake_score False True)) (\<lambda>fake_loss.
     let disc_losses = AList.update ''fake_loss'' fake_loss
                         (AList.update ''real_loss'' real_loss [])
     in next_do (call (Parse_losses disc_losses) (parse_losses imp disc_losses))
          (\<lambda>(loss_disc, log_vars_d).
        next_do (result_of (optimizer_at optimizer ''disc'')) (\<lambda>_.
        next_do (call (Zero_grad ''disc'') (Inr ())) (\<lambda>_.
        next_do (call (Backward loss_disc) (Inr ())) (\<lambda>_.
        next_do (result_of (optimizer_at optimizer ''disc'')) (\<lambda>_.
        call (Step ''disc'') (Inr ())))))))))))))))"

text \<open>Lines 218 to 226.\<close>

definition optimize_generator ::
  "('i, 'f, 'm, 'd, 's) estimator \<Rightarrow> 'm predictions \<Rightarrow> losses action" where
  "optimize_generator self predictions =
     next_do (call (Set_requires_grad_disc False) (Inr ())) (\<lambda>_.
     next_do (call (Make_fake_data True) (make_fake_data self predictions True)) (\<lambda>fake_data.
     next_do (result_of (callable (disc self))) (\<lambda>d.
     next_do (call (Forward ''disc'') (d fake_data)) (\<lambda>pred_score.
     next_do (result_of (callable (loss_adv self))) (\<lambda>adv.
     next_do (call (Loss_adv True False) (adv pred_score True False)) (\<lambda>l.
     done_with [(''adv_loss'', l)]))))))"

text \<open>\<open>losses.update(other)\<close>: the items of \<open>other\<close>, in order, assigned into \<open>losses\<close>.\<close>

definition dict_update :: "losses \<Rightarrow> losses \<Rightarrow> losses" where
  "dict_update losses other = fold (\<lambda>(k, v). AList.update k v) other losses"

text \<open>\<open>if m is not None: optimizer[key].op()\<close> for one of the generator's modules.\<close>

definition when_present :: "'a option \<Rightarrow> string list \<Rightarrow> string \<Rightarrow> event \<Rightarrow> unit action" where
  "when_present m optimizer key e =
     (case m of
        None \<Rightarrow> done_with ()
      | Some _ \<Rightarrow> next_do (result_of (optimizer_at optimizer key)) (\<lambda>_. call e (Inr ())))"

record 'l outputs =
  loss :: real
  log_vars :: 'l
  num_samples :: nat

text \<open>Lines 135 to 196.\<close>

definition train_step ::
  "('i, 'f, 'm, 'l) globals \<Rightarrow> ('i, 'f, 'm, 'd, 's) estimator \<Rightarrow> ('i, 'f) data_batch \<Rightarrow>
   string list \<Rightarrow> 'l outputs action" where
  "train_step imp self batch optimizer =
     next_do (case backbone self of
                Some b \<Rightarrow>
                  next_do (result_of (lookup ''img'' (img batch))) (\<lambda>image.
                  call (Forward ''backbone'') (b (snd image)))
              | None \<Rightarrow> result_of (lookup ''features'' (features batch))) (\<lambda>feats.
     next_do (case neck self of
                Some n \<Rightarrow> call (Forward ''neck'') (n feats)
              | None \<Rightarrow> done_with feats) (\<lambda>feats.
     next_do (result_of (callable (head self))) (\<lambda>h.
     next_do (call (Forward ''head'') (h feats)) (\<lambda>predictions.
     next_do (call Prepare_targets (prepare_targets self batch)) (\<lambda>targets.
     next_do (case disc self of
                Some _ \<Rightarrow> optimize_discrinimator imp self predictions batch optimizer
              | None \<Rightarrow> done_with ()) (\<lambda>_.
     next_do (result_of (compute_losses imp self predictions targets)) (\<lambda>losses.
     next_do (case disc self of
                Some _ \<Rightarrow>
                  next_do (optimize_generator self predictions) (\<lambda>adv_loss.
                  done_with (dict_update losses adv_loss))
              | None \<Rightarrow> done_with losses) (\<lambda>losses.
     next_do (call (Parse_losses losses) (parse_losses imp losses)) (\<lambda>(l, lv).
     next_do (when_present (backbone self) optimizer ''backbone'' (Zero_grad ''backbone'')) (\<lambda>_.
     next_do (when_present (neck self) optimizer ''neck'' (Zero_grad ''neck'')) (\<lambda>_.
     next_do (when_present (head self) optimizer ''head'' (Zero_grad ''head'')) (\<lambda>_.
     next_do (call (Backward l) (Inr ())) (\<lambda>_.
     next_do (when_present (backbone self) optimizer ''backbone'' (Step ''backbone'')) (\<lambda>_.
     next_do (when_present (neck self) optimizer ''neck'' (Step ''neck'')) (\<lambda>_.
     next_do (when_present (head self) optimizer ''head'' (Step ''head'')) (\<lambda>_.
     next_do (result_of (num_samples_of imp batch)) (\<lambda>n.
     done_with \<lparr>loss = l, log_vars = lv, num_samples = n\<rparr>)))))))))))))))))"

subsection \<open>forward_train\<close>


section \<open>Notions used to state the properties\<close>

text \<open>
  The samples of a batch tensor whose validity flag equals 1, in order. This is what
  \<open>x[has == 1]\<close> selects when the flags are as many as the samples.
\<close>

definition valid_samples :: "real list \<Rightarrow> 'a list \<Rightarrow> 'a list" where
  "valid_samples has x = map snd (filter (\<lambda>(h, _). h = 1) (zip has x))"

text \<open>
  Two batch tensors of the same batch size agree where valid: they hold the same slice
  for every sample whose flag equals 1, and may differ in every other sample.
\<close>

definition agree_where_valid :: "real list \<Rightarrow> 'a list \<Rightarrow> 'a list \<Rightarrow> bool" where
  "agree_where_valid has x y \<longleftrightarrow>
     length x = length y \<and> list_all (\<lambda>(h, a, b). h = 1 \<longrightarrow> a = b) (zip has (zip x y))"

text \<open>The rows of three of one sample whose length is a multiple of three.\<close>

fun triples :: "real list \<Rightarrow> xyz list" where
  "triples (a # b # c # r) = (a, b, c) # triples r"
| "triples _ = []"


text \<open>
  Adding one constant offset to every predicted keypoint, and to the coordinates of
  every ground-truth keypoint (the confidence channel is left alone).
\<close>

definition shift_xyz :: "xyz \<Rightarrow> xyz \<Rightarrow> xyz" where
  "shift_xyz t k = (case (t, k) of ((a, b, c), (x, y, z)) \<Rightarrow> (x + a, y + b, z + c))"

definition shift_xyzc :: "xyz \<Rightarrow> xyzc \<Rightarrow> xyzc" where
  "shift_xyzc t k = (case (t, k) of ((a, b, c), (x, y, z, w)) \<Rightarrow> (x + a, y + b, z + c, w))"

text \<open>
  A step from one loss dictionary to another that assigns only keys in \<open>K\<close>: every other
  key is bound as before, or absent as before.
\<close>

definition adds_only :: "string set \<Rightarrow> losses \<Rightarrow> losses \<Rightarrow> bool" where
  "adds_only K l l' \<longleftrightarrow> (\<forall>k. k \<notin> K \<longrightarrow> map_of l' k = map_of l k)"

text \<open>The keys \<open>compute_losses\<close> can assign after the two keypoint terms.\<close>

definition later_keys :: "string set" where
  "later_keys = {''smplx_global_orient'', ''smplx_body_pose_loss'',
     ''smplx_jaw_pose_loss'', ''smplx_right_hand_pose_loss'', ''smplx_left_hand_pose_loss'',
     ''smplx_betas_loss'', ''smplx_expression_loss'', ''smplx_betas_prior_loss'',
     ''camera_loss''}"

text \<open>
  The calls of a successful \<open>train_step\<close> before the adversarial part (the forward passes
  and \<open>prepare_targets\<close>) and after the generator's losses are parsed (the update of the
  generator's modules).
\<close>

definition forward_events :: "('i, 'f, 'm, 'd, 's) estimator \<Rightarrow> event list" where
  "forward_events self =
     (case backbone self of None \<Rightarrow> [] | Some _ \<Rightarrow> [Forward ''backbone'']) @
     (case neck self of None \<Rightarrow> [] | Some _ \<Rightarrow> [Forward ''neck'']) @
     [Forward ''head'', Prepare_targets]"

definition update_events :: "('i, 'f, 'm, 'd, 's) estimator \<Rightarrow> real \<Rightarrow> event list" where
  "update_events self l =
     (case backbone self of None \<Rightarrow> [] | Some _ \<Rightarrow> [Zero_grad ''backbone'']) @
     (case neck self of None \<Rightarrow> [] | Some _ \<Rightarrow> [Zero_grad ''neck'']) @
     (case head self of None \<Rightarrow> [] | Some _ \<Rightarrow> [Zero_grad ''head'']) @
     [Backward l] @
     (case backbone self of None \<Rightarrow> [] | Some _ \<Rightarrow> [Step ''backbone'']) @
     (case neck self of None \<Rightarrow> [] | Some _ \<Rightarrow> [Step ''neck'']) @
     (case head self of None \<Rightarrow> [] | Some _ \<Rightarrow> [Step ''head''])"

subsection \<open>A concrete estimator and batch\<close>

text \<open>
  A small estimator with a head, a discriminator, a body model and the two keypoint
  losses, and a batch of one sample without validity flags for the keypoints. Its
  \<open>prepare_targets\<close> returns the batch itself, as \<open>SMPLXImageBodyModelEstimator\<close> does.
\<close>

definition example_globals :: "(unit, unit, unit, unit) globals" where
  "example_globals =
     \<lparr>batch_rodrigues = (\<lambda>rows. map (\<lambda>r. ()) rows),
      weak_perspective_projection = (\<lambda>P S T. Inl RuntimeError),
      get_keypoint_idxs_by_part = (\<lambda>part conv. Inr []),
      parse_losses = (\<lambda>l. Inr (sum_list (map snd l), ())),
      num_samples_of = (\<lambda>b. Inr 1)\<rparr>"

definition example_predictions :: "unit predictions" where
  "example_predictions =
     \<lparr>pred_param = Some \<lparr>global_orient = None, body_pose = None, jaw_pose = None,
                           right_hand_pose = None, left_hand_pose = None,
                           betas = None, expression = None\<rparr>,
      pred_cam = Some [(1, 0, 0)]\<rparr>"

definition example_batch :: "(unit, unit) data_batch" where
  "example_batch =
     \<lparr>img = Some ([1, 3, 224, 224], ()),
      keypoints3d = Some [[(0, 0, 0, 1), (1, 1, 1, 1), (2, 2, 2, 1)]],
      keypoints2d = Some [[(0, 0, 1), (1, 1, 1), (2, 2, 1)]],
      has_keypoints3d = None, has_keypoints2d = None,
      smplx_global_orient = None, has_smplx_global_orient = None,
      smplx_body_pose = None, has_smplx_body_pose = None,
      smplx_jaw_pose = None, has_smplx_jaw_pose = None,
      smplx_right_hand_pose = None, has_smplx_right_hand_pose = None,
      smplx_left_hand_pose = None, has_smplx_left_hand_pose = None,
      smplx_betas = None, has_smplx_betas = None,
      smplx_expression = None, has_smplx_expression = None,
      features = Some ()\<rparr>"

definition example_estimator :: "(unit, unit, unit, unit, unit) estimator" where
  "example_estimator =
     \<lparr>backbone = None, neck = None,
      head = Some (\<lambda>f. Inr example_predictions),
      disc = Some (\<lambda>d. Inr ()),
      body_model_train = Some (\<lambda>pp. Inr \<lparr>joints = [[(0, 0, 0), (1, 1, 1), (2, 2, 2)]],
                                             vertices = []\<rparr>),
      convention = ''human_data'',
      loss_keypoints2d = Some (\<lambda>p g w. Inr 1),
      loss_keypoints3d = Some (\<lambda>p g w. Inr 1),
      loss_smplx_global_orient = None, loss_smplx_body_pose = None,
      loss_smplx_hand_pose = None, loss_smplx_jaw_pose = None,
      loss_smplx_expression = None, loss_smplx_betas = None,
      loss_smplx_betas_piror = None,
      loss_adv = Some (\<lambda>score target_is_real is_disc. Inr 1),
      loss_camera = None,
      prepare_targets = (\<lambda>b. Inr (targets.truncate b)),
      make_fake_data = (\<lambda>p requires_grad. Inr ()),
      make_real_data = (\<lambda>b. Inr ())\<rparr>"

section \<open>Properties of the convention tables\<close>

text \<open>
  The spliced table, written out, and the same table with the entries at positions 25
  and 46 left out.
\<close>

lemma OPENPOSE_137_KEYPOINTS_literal:
  "OPENPOSE_137_KEYPOINTS =
     [''nose'', ''neck'', ''right_shoulder'', ''right_elbow'', ''right_wrist'',
      ''left_shoulder'', ''left_elbow'', ''left_wrist'', ''pelvis'', ''right_hip'',
      ''right_knee'', ''right_ankle'', ''left_hip'', ''left_knee'', ''left_ankle'',
      ''right_eye'', ''left_eye'', ''right_ear'', ''left_ear'', ''left_bigtoe'',
      ''left_smalltoe'', ''left_heel'', ''right_bigtoe'', ''right_smalltoe'',
      ''right_heel'', ''left_wrist'', ''left_thumb_1'', ''left_thumb_2'', ''left_thumb_3'',
      ''left_thumb'', ''left_index_1'', ''left_index_2'', ''left_index_3'', ''left_index'',
      ''left_middle_1'', ''left_middle_2'', ''left_middle_3'', ''left_middle'',
      ''left_ring_1'', ''left_ring_2'', ''left_ring_3'', ''left_ring'', ''left_pinky_1'',
      ''left_pinky_2'', ''left_pinky_3'', ''left_pinky'', ''right_wrist'',
      ''right_thumb_1'', ''right_thumb_2'', ''right_thumb_3'', ''right_thumb'',
      ''right_index_1'', ''right_index_2'', ''right_index_3'', ''right_index'',
      ''right_middle_1'', ''right_middle_2'', ''right_middle_3'', ''right_middle'',
      ''right_ring_1'', ''right_ring_2'', ''right_ring_3'', ''right_ring'',
      ''right_pinky_1'', ''right_pinky_2'', ''right_pinky_3'', ''right_pinky'',
      ''right_contour_1'', ''right_contour_2'', ''right_contour_3'', ''right_contour_4'',
      ''right_contour_5'', ''right_contour_6'', ''right_contour_7'', ''right_contour_8'',
      ''contour_middle'', ''left_contour_8'', ''left_contour_7'', ''left_contour_6'',
      ''left_contour_5'', ''left_contour_4'', ''left_contour_3'', ''left_contour_2'',
      ''left_contour_1'', ''right_eye_brow_1'', ''right_eye_brow_2'', ''right_eye_brow_3'',
      ''right_eye_brow_4'', ''right_eye_brow_5'', ''left_eye_brow_5'', ''left_eye_brow_4'',
      ''left_eye_brow_3'', ''left_eye_brow_2'', ''left_eye_brow_1'', ''nosebridge_1'',
      ''nosebridge_2'', ''nosebridge_3'', ''nosebridge_4'', ''right_nose_2'',
      ''right_nose_1'', ''nose_middle'', ''left_nose_1'', ''left_nose_2'', ''right_eye_1'',
      ''right_eye_2'', ''right_eye_3'', ''right_eye_4'', ''right_eye_5'', ''right_eye_6'',
      ''left_eye_4'', ''left_eye_3'', ''left_eye_2'', ''left_eye_1'', ''left_eye_6'',
      ''left_eye_5'', ''right_mouth_1'', ''right_mouth_2'', ''right_mouth_3'',
      ''mouth_top'', ''left_mouth_3'', ''left_mouth_2'', ''left_mouth_1'',
      ''left_mouth_5'', ''left_mouth_4'', ''mouth_bottom'', ''right_mouth_4'',
      ''right_mouth_5'', ''right_lip_1'', ''right_lip_2'', ''lip_top'', ''left_lip_2'',
      ''left_lip_1'', ''left_lip_3'', ''lip_bottom'', ''right_lip_3'',
      ''right_eye_undefined'', ''left_eye_undefined'']"
  by (simp add: OPENPOSE_137_KEYPOINTS_def OPENPOSE_FEET_KEYPOINTS_def OPENPOSE_JOINTS_def)

lemma OPENPOSE_137_without_25_and_46:
  "take 25 OPENPOSE_137_KEYPOINTS @ take 20 (drop 26 OPENPOSE_137_KEYPOINTS) @
     drop 47 OPENPOSE_137_KEYPOINTS =
     [''nose'', ''neck'', ''right_shoulder'', ''right_elbow'', ''right_wrist'',
      ''left_shoulder'', ''left_elbow'', ''left_wrist'', ''pelvis'', ''right_hip'',
      ''right_knee'', ''right_ankle'', ''left_hip'', ''left_knee'', ''left_ankle'',
      ''right_eye'', ''left_eye'', ''right_ear'', ''left_ear'', ''left_bigtoe'',
      ''left_smalltoe'', ''left_heel'', ''right_bigtoe'', ''right_smalltoe'',
      ''right_heel'', ''left_thumb_1'', ''left_thumb_2'', ''left_thumb_3'', ''left_thumb'',
      ''left_index_1'', ''left_index_2'', ''left_index_3'', ''left_index'',
      ''left_middle_1'', ''left_middle_2'', ''left_middle_3'', ''left_middle'',
      ''left_ring_1'', ''left_ring_2'', ''left_ring_3'', ''left_ring'', ''left_pinky_1'',
      ''left_pinky_2'', ''left_pinky_3'', ''left_pinky'', ''right_thumb_1'',
      ''right_thumb_2'', ''right_thumb_3'', ''right_thumb'', ''right_index_1'',
      ''right_index_2'', ''right_index_3'', ''right_index'', ''right_middle_1'',
      ''right_middle_2'', ''right_middle_3'', ''right_middle'', ''right_ring_1'',
      ''right_ring_2'', ''right_ring_3'', ''right_ring'', ''right_pinky_1'',
      ''right_pinky_2'', ''right_pinky_3'', ''right_pinky'', ''right_contour_1'',
      ''right_contour_2'', ''right_contour_3'', ''right_contour_4'', ''right_contour_5'',
      ''right_contour_6'', ''right_contour_7'', ''right_contour_8'', ''contour_middle'',
      ''left_contour_8'', ''left_contour_7'', ''left_contour_6'', ''left_contour_5'',
      ''left_contour_4'', ''left_contour_3'', ''left_contour_2'', ''left_contour_1'',
      ''right_eye_brow_1'', ''right_eye_brow_2'', ''right_eye_brow_3'',
      ''right_eye_brow_4'', ''right_eye_brow_5'', ''left_eye_brow_5'', ''left_eye_brow_4'',
      ''left_eye_brow_3'', ''left_eye_brow_2'', ''left_eye_brow_1'', ''nosebridge_1'',
      ''nosebridge_2'', ''nosebridge_3'', ''nosebridge_4'', ''right_nose_2'',
      ''right_nose_1'', ''nose_middle'', ''left_nose_1'', ''left_nose_2'', ''right_eye_1'',
      ''right_eye_2'', ''right_eye_3'', ''right_eye_4'', ''right_eye_5'', ''right_eye_6'',
      ''left_eye_4'', ''left_eye_3'', ''left_eye_2'', ''left_eye_1'', ''left_eye_6'',
      ''left_eye_5'', ''right_mouth_1'', ''right_mouth_2'', ''right_mouth_3'',
      ''mouth_top'', ''left_mouth_3'', ''left_mouth_2'', ''left_mouth_1'',
      ''left_mouth_5'', ''left_mouth_4'', ''mouth_bottom'', ''right_mouth_4'',
      ''right_mouth_5'', ''right_lip_1'', ''right_lip_2'', ''lip_top'', ''left_lip_2'',
      ''left_lip_1'', ''left_lip_3'', ''lip_bottom'', ''right_lip_3'',
      ''right_eye_undefined'', ''left_eye_undefined'']"
  by (simp add: OPENPOSE_137_KEYPOINTS_literal)

text \<open>
  Deciding that the names of a literal list are pairwise different needs only the
  injectivity of the list and character constructors.
\<close>

lemmas names_differ =
  distinct.simps set_simps insert_iff empty_iff list.inject list.simps char.inject
  simp_thms de_Morgan_disj

lemma distinct_OPENPOSE_25: "distinct OPENPOSE_25_KEYPOINTS"
  unfolding OPENPOSE_25_KEYPOINTS_def by (simp only: names_differ)

lemma distinct_OPENPOSE_118: "distinct OPENPOSE_118_KEYPOINTS"
  unfolding OPENPOSE_118_KEYPOINTS_def by (simp only: names_differ)

lemma distinct_OPENPOSE_135: "distinct OPENPOSE_135_KEYPOINTS"
  unfolding OPENPOSE_135_KEYPOINTS_def by (simp only: names_differ)

lemma distinct_OPENPOSE_137_without_25_and_46:
  "distinct (take 25 OPENPOSE_137_KEYPOINTS @ take 20 (drop 26 OPENPOSE_137_KEYPOINTS) @
     drop 47 OPENPOSE_137_KEYPOINTS)"
  unfolding OPENPOSE_137_without_25_and_46 by (simp only: names_differ)

text \<open>
  C5. Each OpenPose table has as many entries as its name says: 25, 118, 135, and 137
  for the table spliced together from \<open>OPENPOSE_JOINTS[:19]\<close>, the feet names and
  \<open>OPENPOSE_JOINTS[19:]\<close>.
\<close>

theorem openpose_table_sizes:
  "length OPENPOSE_25_KEYPOINTS = 25 \<and>
   length OPENPOSE_118_KEYPOINTS = 118 \<and>
   length OPENPOSE_135_KEYPOINTS = 135 \<and>
   length OPENPOSE_137_KEYPOINTS = 137"
  by (simp add: OPENPOSE_25_KEYPOINTS_def OPENPOSE_118_KEYPOINTS_def
      OPENPOSE_135_KEYPOINTS_def OPENPOSE_137_KEYPOINTS_literal)

text \<open>
  C3, as stated: in each of the four tables every name occurs at most once. This fails
  for \<open>OPENPOSE_137_KEYPOINTS\<close>: \<open>OPENPOSE_JOINTS\<close> lists each wrist once with the body
  and once more at the head of the fingers of its hand, so \<open>left_wrist\<close> stands at
  positions 7 and 25 of the spliced table and \<open>right_wrist\<close> at positions 4 and 46.
\<close>

theorem openpose_137_names_repeat:
  "OPENPOSE_137_KEYPOINTS ! 7 = ''left_wrist'' \<and>
   OPENPOSE_137_KEYPOINTS ! 25 = ''left_wrist'' \<and>
   count_list OPENPOSE_137_KEYPOINTS ''left_wrist'' = 2 \<and>
   \<not> distinct OPENPOSE_137_KEYPOINTS"
proof -
  have a: "OPENPOSE_137_KEYPOINTS ! 7 = ''left_wrist''"
    by (simp add: OPENPOSE_137_KEYPOINTS_literal)
  have b: "OPENPOSE_137_KEYPOINTS ! 25 = ''left_wrist''"
    by (simp add: OPENPOSE_137_KEYPOINTS_literal)
  have c: "count_list OPENPOSE_137_KEYPOINTS ''left_wrist'' = 2"
    by (simp add: OPENPOSE_137_KEYPOINTS_literal)
  have n: "length OPENPOSE_137_KEYPOINTS = 137"
    by (simp add: OPENPOSE_137_KEYPOINTS_literal)
  have "\<not> distinct OPENPOSE_137_KEYPOINTS"
  proof
    assume d: "distinct OPENPOSE_137_KEYPOINTS"
    have "OPENPOSE_137_KEYPOINTS ! 7 \<noteq> OPENPOSE_137_KEYPOINTS ! 25"
      using nth_eq_iff_index_eq [OF d, of 7 25] n by simp
    with a b show False by simp
  qed
  with a b c show ?thesis by simp
qed

text \<open>
  C3, amended: in \<open>OPENPOSE_25_KEYPOINTS\<close>, \<open>OPENPOSE_118_KEYPOINTS\<close> and
  \<open>OPENPOSE_135_KEYPOINTS\<close> every name occurs at most once. In
  \<open>OPENPOSE_137_KEYPOINTS\<close> the names \<open>left_wrist\<close> and \<open>right_wrist\<close> occur exactly
  twice each, at positions 7 and 25 and at positions 4 and 46, and once the entries at
  positions 25 and 46 are left out the remaining 135 names are pairwise different.
\<close>

theorem openpose_names_unique_up_to_wrists:
  "distinct OPENPOSE_25_KEYPOINTS \<and>
   distinct OPENPOSE_118_KEYPOINTS \<and>
   distinct OPENPOSE_135_KEYPOINTS \<and>
   count_list OPENPOSE_137_KEYPOINTS ''left_wrist'' = 2 \<and>
   count_list OPENPOSE_137_KEYPOINTS ''right_wrist'' = 2 \<and>
   OPENPOSE_137_KEYPOINTS ! 7 = ''left_wrist'' \<and>
   OPENPOSE_137_KEYPOINTS ! 25 = ''left_wrist'' \<and>
   OPENPOSE_137_KEYPOINTS ! 4 = ''right_wrist'' \<and>
   OPENPOSE_137_KEYPOINTS ! 46 = ''right_wrist'' \<and>
   distinct (take 25 OPENPOSE_137_KEYPOINTS @ take 20 (drop 26 OPENPOSE_137_KEYPOINTS) @
     drop 47 OPENPOSE_137_KEYPOINTS)"
proof -
  have w: "count_list OPENPOSE_137_KEYPOINTS ''left_wrist'' = 2 \<and>
           count_list OPENPOSE_137_KEYPOINTS ''right_wrist'' = 2"
    by (simp add: OPENPOSE_137_KEYPOINTS_literal)
  have p: "OPENPOSE_137_KEYPOINTS ! 7 = ''left_wrist'' \<and>
           OPENPOSE_137_KEYPOINTS ! 25 = ''left_wrist'' \<and>
           OPENPOSE_137_KEYPOINTS ! 4 = ''right_wrist'' \<and>
           OPENPOSE_137_KEYPOINTS ! 46 = ''right_wrist''"
    by (simp add: OPENPOSE_137_KEYPOINTS_literal)
  from distinct_OPENPOSE_25 distinct_OPENPOSE_118 distinct_OPENPOSE_135 w p
    distinct_OPENPOSE_137_without_25_and_46
  show ?thesis by simp
qed

section \<open>Properties of the SPIN configuration\<close>


section \<open>Properties of the estimator\<close>


subsection \<open>Sequencing, masks and selections\<close>

lemma and_then_Inl [simp]: "and_then (Inl e) f = Inl e"
  by (simp add: and_then_def)

lemma and_then_Inr [simp]: "and_then (Inr v) f = f v"
  by (simp add: and_then_def)

lemma filter_zip_flags:
  "map snd (filter fst (zip (map (\<lambda>v. v = 1) has) x)) = valid_samples has x"
  unfolding valid_samples_def
  by (induction has arbitrary: x) (auto simp: zip_Cons1 split: list.splits)

lemma bool_index_flags:
  "bool_index (map (\<lambda>v. v = 1) has) x =
     (if length has \<noteq> length x then Inl IndexError else Inr (valid_samples has x))"
  by (simp add: bool_index_def filter_zip_flags)


lemma valid_samples_agree:
  "agree_where_valid has x y \<Longrightarrow> valid_samples has x = valid_samples has y"
  unfolding valid_samples_def agree_where_valid_def
proof (induction has arbitrary: x y)
  case Nil
  then show ?case by simp
next
  case (Cons h hs)
  then show ?case by (cases x; cases y) auto
qed

lemma agree_where_valid_length: "agree_where_valid has x y \<Longrightarrow> length x = length y"
  by (simp add: agree_where_valid_def)

lemma agree_where_valid_map:
  "agree_where_valid has x y \<Longrightarrow> agree_where_valid has (map f x) (map f y)"
  unfolding agree_where_valid_def
proof (induction has arbitrary: x y)
  case Nil
  then show ?case by simp
next
  case (Cons h hs)
  then show ?case by (cases x; cases y) auto
qed

lemma valid_samples_none: "1 \<notin> set has \<Longrightarrow> valid_samples has x = []"
  unfolding valid_samples_def
  by (induction has arbitrary: x) (auto simp: zip_Cons1 split: list.splits)

lemma kp3d_none: "compute_keypoints3d_loss L pred gt None = Inr 0"
  by (simp add: compute_keypoints3d_loss_def eq_one_def opt_bool_index_def numel_tuples_def)

subsection \<open>Views of the ground-truth poses\<close>

lemma rows_of_three_exact:
  "length s = 3 * n \<Longrightarrow> rows_of_three s = Inr (triples s) \<and> length (triples s) = n"
proof (induction n arbitrary: s)
  case 0
  then show ?case by simp
next
  case (Suc n)
  then obtain a b c r where s: "s = a # b # c # r"
    by (cases s; simp; cases "tl s"; simp; cases "tl (tl s)"; simp)
  with Suc.prems have "length r = 3 * n" by simp
  from Suc.IH [OF this] s show ?case by simp
qed

lemma rows_of_three_append:
  "length s = 3 * n \<Longrightarrow>
   rows_of_three (s @ t) = and_then (rows_of_three t) (\<lambda>b. Inr (triples s @ b))"
proof (induction n arbitrary: s)
  case 0
  then show ?case by (cases "rows_of_three t") simp_all
next
  case (Suc n)
  then obtain a b c r where s: "s = a # b # c # r"
    by (cases s; simp; cases "tl s"; simp; cases "tl (tl s)"; simp)
  with Suc.prems have "length r = 3 * n" by simp
  from Suc.IH [OF this] s show ?case by (cases "rows_of_three t") simp_all
qed

lemma view_3_rectangular:
  "\<forall>s\<in>set x. length s = 3 * n \<Longrightarrow> view_3 x = Inr (concat (map triples x))"
  unfolding view_3_def
proof (induction x)
  case Nil
  then show ?case by simp
next
  case (Cons s x)
  then have "length s = 3 * n" and "rows_of_three (concat x) = Inr (concat (map triples x))"
    by simp_all
  then show ?case by (simp add: rows_of_three_append)
qed

lemma length_triples: "length s = 3 * n \<Longrightarrow> length (triples s) = n"
  using rows_of_three_exact by blast

lemma chunk_concat:
  "0 < n \<Longrightarrow> \<forall>s\<in>set xs. length s = n \<Longrightarrow> chunk n (concat xs) = xs"
proof (induction xs)
  case Nil
  then show ?case by (simp add: chunk.simps)
next
  case (Cons s xs)
  then have "s \<noteq> []" and "length s = n" and "chunk n (concat xs) = xs" by auto
  then show ?case using Cons.prems(1) by (subst chunk.simps) simp
qed

lemma length_concat_rectangular:
  "\<forall>s\<in>set xs. length s = n \<Longrightarrow> length (concat xs) = n * length xs"
  by (induction xs) (simp_all add: algebra_simps)

lemma view_joints_concat:
  "0 < n \<Longrightarrow> \<forall>s\<in>set xs. length s = n \<Longrightarrow> view_joints n (concat xs) = Inr xs"
  using length_concat_rectangular [of xs n] by (simp add: view_joints_def chunk_concat)

lemma rotmats_per_sample:
  assumes "0 < n" and "\<forall>s\<in>set x. length s = 3 * n"
  shows "view_joints n (map f (concat (map triples x))) = Inr (map (\<lambda>s. map f (triples s)) x)"
proof -
  have "map f (concat (map triples x)) = concat (map (\<lambda>s. map f (triples s)) x)"
    by (simp add: map_concat comp_def)
  moreover have "\<forall>r\<in>set (map (\<lambda>s. map f (triples s)) x). length r = n"
    using assms(2) by (auto simp: length_triples)
  ultimately show ?thesis using assms(1) by (simp add: view_joints_concat)
qed

lemma view_joints_0: "view_joints 0 r = Inl RuntimeError"
  by (simp add: view_joints_def)

subsection \<open>Each term reads only the valid samples\<close>

lemma bool_index_agree:
  "agree_where_valid has x y \<Longrightarrow>
   bool_index (map (\<lambda>v. v = 1) has) x = bool_index (map (\<lambda>v. v = 1) has) y"
  by (simp add: bool_index_flags valid_samples_agree agree_where_valid_length)

lemma global_orient_valid_only:
  assumes rowwise: "\<forall>rows. R rows = map f rows"
    and p: "agree_where_valid has pred pred'"
    and g: "agree_where_valid has gt gt'"
    and r: "\<forall>s\<in>set gt. length s = 3"
    and r': "\<forall>s\<in>set gt'. length s = 3"
  shows "compute_smplx_global_orient_loss R L pred gt has =
         compute_smplx_global_orient_loss R L pred' gt' has"
proof -
  let ?idx = "map (\<lambda>v. v = 1) has"
  let ?g = "\<lambda>s. map f (triples s)"
  have r1: "\<forall>s\<in>set gt. length s = 3 * 1" and r1': "\<forall>s\<in>set gt'. length s = 3 * 1"
    using r r' by simp_all
  have v3: "view_3 gt = Inr (concat (map triples gt))"
    "view_3 gt' = Inr (concat (map triples gt'))"
    using view_3_rectangular [OF r1] view_3_rectangular [OF r1'] by simp_all
  have vj: "view_joints 1 (R (concat (map triples gt))) = Inr (map ?g gt)"
    "view_joints 1 (R (concat (map triples gt'))) = Inr (map ?g gt')"
    using rotmats_per_sample [OF _ r1, of f] rotmats_per_sample [OF _ r1', of f] rowwise
    by simp_all
  have bg: "bool_index ?idx gt = bool_index ?idx gt'"
    using g by (rule bool_index_agree)
  have bp: "bool_index ?idx pred = bool_index ?idx pred'"
    using p by (rule bool_index_agree)
  have br: "bool_index ?idx (map ?g gt) = bool_index ?idx (map ?g gt')"
    using g by (intro bool_index_agree agree_where_valid_map)
  show ?thesis
    unfolding compute_smplx_global_orient_loss_def Let_def
    by (simp only: bg v3 and_then_Inr vj bp br)
qed

lemma jaw_pose_valid_only:
  assumes rowwise: "\<forall>rows. R rows = map f rows"
    and p: "agree_where_valid has pred pred'"
    and g: "agree_where_valid has gt gt'"
    and c: "agree_where_valid has conf conf'"
    and r: "\<forall>s\<in>set gt. length s = 3"
    and r': "\<forall>s\<in>set gt'. length s = 3"
  shows "compute_smplx_jaw_pose_loss R L pred gt has conf =
         compute_smplx_jaw_pose_loss R L pred' gt' has conf'"
proof -
  let ?idx = "map (\<lambda>v. v = 1) has"
  let ?g = "\<lambda>s. map f (triples s)"
  have r1: "\<forall>s\<in>set gt. length s = 3 * 1" and r1': "\<forall>s\<in>set gt'. length s = 3 * 1"
    using r r' by simp_all
  have v3: "view_3 gt = Inr (concat (map triples gt))"
    "view_3 gt' = Inr (concat (map triples gt'))"
    using view_3_rectangular [OF r1] view_3_rectangular [OF r1'] by simp_all
  have vj: "view_joints 1 (R (concat (map triples gt))) = Inr (map ?g gt)"
    "view_joints 1 (R (concat (map triples gt'))) = Inr (map ?g gt')"
    using rotmats_per_sample [OF _ r1, of f] rotmats_per_sample [OF _ r1', of f] rowwise
    by simp_all
  have bg: "bool_index ?idx gt = bool_index ?idx gt'"
    using g by (rule bool_index_agree)
  have bp: "bool_index ?idx pred = bool_index ?idx pred'"
    using p by (rule bool_index_agree)
  have br: "bool_index ?idx (map ?g gt) = bool_index ?idx (map ?g gt')"
    using g by (intro bool_index_agree agree_where_valid_map)
  have bw: "bool_index ?idx (map (\<lambda>c. [[[c]]]) (map mean conf)) =
            bool_index ?idx (map (\<lambda>c. [[[c]]]) (map mean conf'))"
    using c by (intro bool_index_agree agree_where_valid_map)
  show ?thesis
    unfolding compute_smplx_jaw_pose_loss_def Let_def
    by (simp only: bg v3 and_then_Inr vj bp br bw)
qed

lemma body_pose_valid_only:
  assumes rowwise: "\<forall>rows. R rows = map f rows"
    and p: "agree_where_valid has pred pred'"
    and g: "agree_where_valid has gt gt'"
    and sh: "shape_1 pred' = shape_1 pred"
    and r: "\<forall>s\<in>set gt. length s = 3 * shape_1 pred"
    and r': "\<forall>s\<in>set gt'. length s = 3 * shape_1 pred"
  shows "compute_smplx_body_pose_loss R L pred gt has =
         compute_smplx_body_pose_loss R L pred' gt' has"
proof -
  let ?idx = "map (\<lambda>v. v = 1) has"
  let ?g = "\<lambda>s. map f (triples s)"
  have v3: "view_3 gt = Inr (concat (map triples gt))"
    "view_3 gt' = Inr (concat (map triples gt'))"
    using view_3_rectangular [OF r] view_3_rectangular [OF r'] by simp_all
  have bg: "bool_index ?idx gt = bool_index ?idx gt'"
    using g by (rule bool_index_agree)
  have bp: "bool_index ?idx pred = bool_index ?idx pred'"
    using p by (rule bool_index_agree)
  have br: "bool_index ?idx (map ?g gt) = bool_index ?idx (map ?g gt')"
    using g by (intro bool_index_agree agree_where_valid_map)
  show ?thesis
  proof (cases "shape_1 pred = 0")
    case True
    show ?thesis
      unfolding compute_smplx_body_pose_loss_def Let_def
      by (simp only: sh True bg v3 and_then_Inr and_then_Inl view_joints_0)
  next
    case False
    then have n: "0 < shape_1 pred" by simp
    have vj: "view_joints (shape_1 pred) (R (concat (map triples gt))) = Inr (map ?g gt)"
      "view_joints (shape_1 pred) (R (concat (map triples gt'))) = Inr (map ?g gt')"
      using rotmats_per_sample [OF n r] rotmats_per_sample [OF n r'] rowwise by simp_all
    show ?thesis
      unfolding compute_smplx_body_pose_loss_def Let_def
      by (simp only: sh bg v3 and_then_Inr vj bp br)
  qed
qed

lemma hand_pose_valid_only:
  assumes rowwise: "\<forall>rows. R rows = map f rows"
    and p: "agree_where_valid has pred pred'"
    and g: "agree_where_valid has gt gt'"
    and c: "agree_where_valid has conf conf'"
    and sh: "shape_1 pred' = shape_1 pred"
    and r: "\<forall>s\<in>set gt. length s = 3 * shape_1 pred"
    and r': "\<forall>s\<in>set gt'. length s = 3 * shape_1 pred"
  shows "compute_smplx_hand_pose_loss R L pred gt has conf =
         compute_smplx_hand_pose_loss R L pred' gt' has conf'"
proof -
  let ?idx = "map (\<lambda>v. v = 1) has"
  let ?g = "\<lambda>s. map f (triples s)"
  let ?w = "\<lambda>s. map (\<lambda>c. [[c]]) (replicate (shape_1 pred) (mean s))"
  have v3: "view_3 gt = Inr (concat (map triples gt))"
    "view_3 gt' = Inr (concat (map triples gt'))"
    using view_3_rectangular [OF r] view_3_rectangular [OF r'] by simp_all
  have bg: "bool_index ?idx gt = bool_index ?idx gt'"
    using g by (rule bool_index_agree)
  have bp: "bool_index ?idx pred = bool_index ?idx pred'"
    using p by (rule bool_index_agree)
  have br: "bool_index ?idx (map ?g gt) = bool_index ?idx (map ?g gt')"
    using g by (intro bool_index_agree agree_where_valid_map)
  have bw: "bool_index ?idx (map ?w conf) = bool_index ?idx (map ?w conf')"
    using c by (intro bool_index_agree agree_where_valid_map)
  show ?thesis
  proof (cases "shape_1 pred = 0")
    case True
    show ?thesis
      unfolding compute_smplx_hand_pose_loss_def Let_def
      by (simp only: sh True bg v3 and_then_Inr and_then_Inl view_joints_0)
  next
    case False
    then have n: "0 < shape_1 pred" by simp
    have vj: "view_joints (shape_1 pred) (R (concat (map triples gt))) = Inr (map ?g gt)"
      "view_joints (shape_1 pred) (R (concat (map triples gt'))) = Inr (map ?g gt')"
      using rotmats_per_sample [OF n r] rotmats_per_sample [OF n r'] rowwise by simp_all
    show ?thesis
      unfolding compute_smplx_hand_pose_loss_def Let_def
      by (simp only: sh bg v3 and_then_Inr vj bp br bw)
  qed
qed

lemma betas_valid_only:
  assumes p: "agree_where_valid has pred pred'"
    and g: "agree_where_valid has gt gt'"
  shows "compute_smplx_betas_loss L pred gt has = compute_smplx_betas_loss L pred' gt' has"
proof -
  let ?idx = "map (\<lambda>v. v = 1) has"
  have bg: "bool_index ?idx gt = bool_index ?idx gt'"
    using g by (rule bool_index_agree)
  have bp: "bool_index ?idx pred = bool_index ?idx pred'"
    using p by (rule bool_index_agree)
  show ?thesis
    unfolding compute_smplx_betas_loss_def Let_def
    by (simp only: bg bp)
qed

lemma expression_valid_only:
  assumes p: "agree_where_valid has pred pred'"
    and g: "agree_where_valid has gt gt'"
    and c: "agree_where_valid has conf conf'"
  shows "compute_smplx_expression_loss L pred gt has conf =
         compute_smplx_expression_loss L pred' gt' has conf'"
proof -
  let ?idx = "map (\<lambda>v. v = 1) has"
  have bg: "bool_index ?idx gt = bool_index ?idx gt'"
    using g by (rule bool_index_agree)
  have bp: "bool_index ?idx pred = bool_index ?idx pred'"
    using p by (rule bool_index_agree)
  have bw: "bool_index ?idx (map (\<lambda>c. [c]) (map mean conf)) =
            bool_index ?idx (map (\<lambda>c. [c]) (map mean conf'))"
    using c by (intro bool_index_agree agree_where_valid_map)
  show ?thesis
    unfolding compute_smplx_expression_loss_def Let_def
    by (simp only: bg bp bw)
qed

lemma agree_where_valid_zip:
  "agree_where_valid has x x' \<Longrightarrow> agree_where_valid has y y' \<Longrightarrow>
   agree_where_valid has (zip x y) (zip x' y')"
  unfolding agree_where_valid_def
proof (induction has arbitrary: x x' y y')
  case Nil
  then show ?case by simp
next
  case (Cons h hs)
  then show ?case by (cases x; cases x'; cases y; cases y') auto
qed

lemma keypoints3d_valid_only:
  assumes p: "agree_where_valid has pred pred'"
    and g: "agree_where_valid has gt gt'"
  shows "compute_keypoints3d_loss L pred gt (Some has) =
         compute_keypoints3d_loss L pred' gt' (Some has)"
proof -
  let ?idx = "map (\<lambda>v. v = 1) has"
  have bp: "bool_index ?idx pred = bool_index ?idx pred'"
    using p by (rule bool_index_agree)
  have bc: "bool_index ?idx (map (map (\<lambda>(x, y, z, c). (c, c, c))) gt) =
            bool_index ?idx (map (map (\<lambda>(x, y, z, c). (c, c, c))) gt')"
    using g by (intro bool_index_agree agree_where_valid_map)
  have bg: "bool_index ?idx (map (map (\<lambda>(x, y, z, c). (x, y, z))) gt) =
            bool_index ?idx (map (map (\<lambda>(x, y, z, c). (x, y, z))) gt')"
    using g by (intro bool_index_agree agree_where_valid_map)
  show ?thesis
    unfolding compute_keypoints3d_loss_def Let_def eq_one_def opt_bool_index_def
    by (simp only: option.case bp bc bg)
qed

lemma keypoints2d_valid_only:
  assumes samplewise: "\<forall>P S T. length P = length S \<and> length S = length T \<longrightarrow>
        W P S T = Inr (map (\<lambda>(p, s, t). f p s t) (zip P (zip S T)))"
    and n: "length pred = length cam" and n': "length pred' = length cam'"
    and p: "agree_where_valid has pred pred'"
    and c: "agree_where_valid has cam cam'"
    and g: "agree_where_valid has gt gt'"
  shows "compute_keypoints2d_loss W L pred cam gt res (Some has) =
         compute_keypoints2d_loss W L pred' cam' gt' res (Some has)"
proof -
  let ?idx = "map (\<lambda>v. v = 1) has"
  let ?sc = "map (\<lambda>(s, tx, ty). s)" and ?tr = "map (\<lambda>(s, tx, ty). (tx, ty))"
  let ?F = "\<lambda>(p, s, t). f p s t"
  let ?N = "map (\<lambda>(x, y).
      (2 * x / real_of_int (res - 1) - 1, 2 * y / real_of_int (res - 1) - 1))"
  have w: "W pred (?sc cam) (?tr cam) = Inr (map ?F (zip pred (zip (?sc cam) (?tr cam))))"
    "W pred' (?sc cam') (?tr cam') = Inr (map ?F (zip pred' (zip (?sc cam') (?tr cam'))))"
    using samplewise n n' by simp_all
  have bw: "bool_index ?idx (map ?F (zip pred (zip (?sc cam) (?tr cam)))) =
            bool_index ?idx (map ?F (zip pred' (zip (?sc cam') (?tr cam'))))"
    by (intro bool_index_agree agree_where_valid_zip agree_where_valid_map p c)
  have bc: "bool_index ?idx (map (map (\<lambda>(x, y, c). (c, c))) gt) =
            bool_index ?idx (map (map (\<lambda>(x, y, c). (c, c))) gt')"
    using g by (intro bool_index_agree agree_where_valid_map)
  have bg: "bool_index ?idx (map ?N (map (map (\<lambda>(x, y, c). (x, y))) gt)) =
            bool_index ?idx (map ?N (map (map (\<lambda>(x, y, c). (x, y))) gt'))"
    using g by (intro bool_index_agree agree_where_valid_map)
  show ?thesis
    unfolding compute_keypoints2d_loss_def Let_def eq_one_def opt_bool_index_def
    by (simp only: option.case w and_then_Inr bw bc bg)
qed

lemma keypoints2d_none: "compute_keypoints2d_loss W L pred cam gt res None = Inr 0"
  by (simp add: compute_keypoints2d_loss_def eq_one_def opt_bool_index_def numel_tuples_def)

text \<open>
  C1. Every loss term with a validity flag depends only on the samples whose flag
  equals 1. For each of the eight per-term functions: take two batches of the same
  shapes that hold the same predicted and ground-truth values (the confidences of the
  ground truth included) in every sample whose flag equals 1, and anything in the other
  samples; the returned loss, or the exception raised, is the same for both. The loss
  modules are arbitrary. The two imported helpers are assumed to work sample by sample
  (\<open>batch_rodrigues\<close> row by row), predictions and cameras to come in equal numbers,
  and the ground-truth poses to have three entries per predicted joint.
\<close>

theorem loss_terms_depend_on_valid_samples_only:
  fixes R :: "xyz list \<Rightarrow> 'm list"
  shows
  "(agree_where_valid h3 p3 p3' \<and> agree_where_valid h3 g3 g3' \<longrightarrow>
      compute_keypoints3d_loss L3 p3 g3 (Some h3) =
      compute_keypoints3d_loss L3 p3' g3' (Some h3)) \<and>
   ((\<forall>P S T. length P = length S \<and> length S = length T \<longrightarrow>
        W P S T = Inr (map (\<lambda>(p, s, t). w p s t) (zip P (zip S T)))) \<and>
    length p2 = length c2 \<and> length p2' = length c2' \<and>
    agree_where_valid h2 p2 p2' \<and> agree_where_valid h2 c2 c2' \<and>
    agree_where_valid h2 g2 g2' \<longrightarrow>
      compute_keypoints2d_loss W L2 p2 c2 g2 res (Some h2) =
      compute_keypoints2d_loss W L2 p2' c2' g2' res (Some h2)) \<and>
   ((\<forall>rows. R rows = map f rows) \<and>
    agree_where_valid ho po po' \<and> agree_where_valid ho go go' \<and>
    (\<forall>s\<in>set go. length s = 3) \<and> (\<forall>s\<in>set go'. length s = 3) \<longrightarrow>
      compute_smplx_global_orient_loss R Lo po go ho =
      compute_smplx_global_orient_loss R Lo po' go' ho) \<and>
   ((\<forall>rows. R rows = map f rows) \<and>
    agree_where_valid hb pb pb' \<and> agree_where_valid hb gb gb' \<and>
    shape_1 pb' = shape_1 pb \<and>
    (\<forall>s\<in>set gb. length s = 3 * shape_1 pb) \<and> (\<forall>s\<in>set gb'. length s = 3 * shape_1 pb) \<longrightarrow>
      compute_smplx_body_pose_loss R Lb pb gb hb =
      compute_smplx_body_pose_loss R Lb pb' gb' hb) \<and>
   ((\<forall>rows. R rows = map f rows) \<and>
    agree_where_valid hj pj pj' \<and> agree_where_valid hj gj gj' \<and>
    agree_where_valid hj cj cj' \<and>
    (\<forall>s\<in>set gj. length s = 3) \<and> (\<forall>s\<in>set gj'. length s = 3) \<longrightarrow>
      compute_smplx_jaw_pose_loss R Lj pj gj hj cj =
      compute_smplx_jaw_pose_loss R Lj pj' gj' hj cj') \<and>
   ((\<forall>rows. R rows = map f rows) \<and>
    agree_where_valid hh ph ph' \<and> agree_where_valid hh gh gh' \<and>
    agree_where_valid hh ch ch' \<and> shape_1 ph' = shape_1 ph \<and>
    (\<forall>s\<in>set gh. length s = 3 * shape_1 ph) \<and> (\<forall>s\<in>set gh'. length s = 3 * shape_1 ph) \<longrightarrow>
      compute_smplx_hand_pose_loss R Lh ph gh hh ch =
      compute_smplx_hand_pose_loss R Lh ph' gh' hh ch') \<and>
   (agree_where_valid hs ps ps' \<and> agree_where_valid hs gs gs' \<longrightarrow>
      compute_smplx_betas_loss Ls ps gs hs = compute_smplx_betas_loss Ls ps' gs' hs) \<and>
   (agree_where_valid he pe pe' \<and> agree_where_valid he ge ge' \<and>
    agree_where_valid he ce ce' \<longrightarrow>
      compute_smplx_expression_loss Le pe ge he ce =
      compute_smplx_expression_loss Le pe' ge' he ce')"
proof (intro conjI impI)
qed (blast intro: keypoints3d_valid_only keypoints2d_valid_only global_orient_valid_only
      body_pose_valid_only jaw_pose_valid_only hand_pose_valid_only betas_valid_only
      expression_valid_only)+

text \<open>
  The hypotheses of C1 at a batch of two samples with flags \<open>[1, 0]\<close> whose second
  samples differ, with the conclusion there.
\<close>

theorem loss_terms_depend_on_valid_samples_only_witness:
  "agree_where_valid [1, 0]
     [[(0, 0, 0), (1, 0, 0), (3, 0, 0)], [(5, 5, 5), (5, 5, 5), (5, 5, 5)]]
     [[(0, 0, 0), (1, 0, 0), (3, 0, 0)], [(7, 7, 7), (8, 8, 8), (9, 9, 9)]] \<and>
   agree_where_valid [1, 0]
     [[(0, 0, 0, 1), (1, 0, 0, 1), (3, 0, 0, 1)], [(0, 0, 0, 0), (0, 0, 0, 0), (0, 0, 0, 0)]]
     [[(0, 0, 0, 1), (1, 0, 0, 1), (3, 0, 0, 1)], [(9, 9, 9, 1), (9, 9, 9, 1), (9, 9, 9, 1)]] \<and>
   compute_keypoints3d_loss (\<lambda>p g w. Inr (real (length p)))
     [[(0, 0, 0), (1, 0, 0), (3, 0, 0)], [(5, 5, 5), (5, 5, 5), (5, 5, 5)]]
     [[(0, 0, 0, 1), (1, 0, 0, 1), (3, 0, 0, 1)], [(0, 0, 0, 0), (0, 0, 0, 0), (0, 0, 0, 0)]]
     (Some [1, 0]) =
   compute_keypoints3d_loss (\<lambda>p g w. Inr (real (length p)))
     [[(0, 0, 0), (1, 0, 0), (3, 0, 0)], [(7, 7, 7), (8, 8, 8), (9, 9, 9)]]
     [[(0, 0, 0, 1), (1, 0, 0, 1), (3, 0, 0, 1)], [(9, 9, 9, 1), (9, 9, 9, 1), (9, 9, 9, 1)]]
     (Some [1, 0]) \<and>
   agree_where_valid [1, 0] [(1, 0, 0), (1, 0, 0)] [(1, 0, 0), (2, 1, 1)] \<and>
   agree_where_valid [1, 0]
     [[(0, 0, 1), (1, 1, 1), (2, 2, 1)], [(0, 0, 0), (0, 0, 0), (0, 0, 0)]]
     [[(0, 0, 1), (1, 1, 1), (2, 2, 1)], [(4, 4, 1), (4, 4, 1), (4, 4, 1)]] \<and>
   compute_keypoints2d_loss
     (\<lambda>P S T. Inr (map (\<lambda>(p, s, t). map (\<lambda>(x, y, z). (s * (x + fst t), s * (y + snd t))) p)
                     (zip P (zip S T))))
     (\<lambda>p g w. Inr (real (length p)))
     [[(0, 0, 0), (1, 0, 0), (3, 0, 0)], [(5, 5, 5), (5, 5, 5), (5, 5, 5)]]
     [(1, 0, 0), (1, 0, 0)]
     [[(0, 0, 1), (1, 1, 1), (2, 2, 1)], [(0, 0, 0), (0, 0, 0), (0, 0, 0)]]
     224 (Some [1, 0]) =
   compute_keypoints2d_loss
     (\<lambda>P S T. Inr (map (\<lambda>(p, s, t). map (\<lambda>(x, y, z). (s * (x + fst t), s * (y + snd t))) p)
                     (zip P (zip S T))))
     (\<lambda>p g w. Inr (real (length p)))
     [[(0, 0, 0), (1, 0, 0), (3, 0, 0)], [(7, 7, 7), (8, 8, 8), (9, 9, 9)]]
     [(1, 0, 0), (2, 1, 1)]
     [[(0, 0, 1), (1, 1, 1), (2, 2, 1)], [(4, 4, 1), (4, 4, 1), (4, 4, 1)]]
     224 (Some [1, 0]) \<and>
   agree_where_valid [1, 0] [[0::real], [0]] [[0], [5]] \<and>
   agree_where_valid [1, 0] [[1, 2, 3], [4, 5, 6::real]] [[1, 2, 3], [0, 0, 0]] \<and>
   compute_smplx_global_orient_loss (map (\<lambda>(x, y, z). x)) (\<lambda>p g. Inr (sum_list (concat g)))
     [[0], [0]] [[1, 2, 3], [4, 5, 6]] [1, 0] =
   compute_smplx_global_orient_loss (map (\<lambda>(x, y, z). x)) (\<lambda>p g. Inr (sum_list (concat g)))
     [[0], [5]] [[1, 2, 3], [0, 0, 0]] [1, 0] \<and>
   agree_where_valid [1, 0] [[0, 0::real], [0, 0]] [[0, 0], [1, 1]] \<and>
   agree_where_valid [1, 0] [[1, 2, 3, 4, 5, 6], [0, 0, 0, 0, 0, 0::real]]
     [[1, 2, 3, 4, 5, 6], [9, 9, 9, 9, 9, 9]] \<and>
   compute_smplx_body_pose_loss (map (\<lambda>(x, y, z). x)) (\<lambda>p g. Inr (sum_list (concat g)))
     [[0, 0], [0, 0]] [[1, 2, 3, 4, 5, 6], [0, 0, 0, 0, 0, 0]] [1, 0] =
   compute_smplx_body_pose_loss (map (\<lambda>(x, y, z). x)) (\<lambda>p g. Inr (sum_list (concat g)))
     [[0, 0], [1, 1]] [[1, 2, 3, 4, 5, 6], [9, 9, 9, 9, 9, 9]] [1, 0] \<and>
   agree_where_valid [1, 0] [[1, 0], [1, 1::real]] [[1, 0], [0, 0]] \<and>
   compute_smplx_jaw_pose_loss (map (\<lambda>(x, y, z). x)) (\<lambda>p g w. Inr (sum_list (concat g)))
     [[0], [0]] [[1, 2, 3], [4, 5, 6]] [1, 0] [[1, 0], [1, 1]] =
   compute_smplx_jaw_pose_loss (map (\<lambda>(x, y, z). x)) (\<lambda>p g w. Inr (sum_list (concat g)))
     [[0], [5]] [[1, 2, 3], [0, 0, 0]] [1, 0] [[1, 0], [0, 0]] \<and>
   compute_smplx_hand_pose_loss (map (\<lambda>(x, y, z). x)) (\<lambda>p g w. Inr (sum_list (concat g)))
     [[0, 0], [0, 0]] [[1, 2, 3, 4, 5, 6], [0, 0, 0, 0, 0, 0]] [1, 0] [[1, 0], [1, 1]] =
   compute_smplx_hand_pose_loss (map (\<lambda>(x, y, z). x)) (\<lambda>p g w. Inr (sum_list (concat g)))
     [[0, 0], [1, 1]] [[1, 2, 3, 4, 5, 6], [9, 9, 9, 9, 9, 9]] [1, 0] [[1, 0], [0, 0]] \<and>
   compute_smplx_betas_loss (\<lambda>p g. Inr (sum_list (concat p)))
     [[0, 0], [0, 0]] [[1, 2, 3], [4, 5, 6]] [1, 0] =
   compute_smplx_betas_loss (\<lambda>p g. Inr (sum_list (concat p)))
     [[0, 0], [1, 1]] [[1, 2, 3], [0, 0, 0]] [1, 0] \<and>
   compute_smplx_expression_loss (\<lambda>p g w. Inr (sum_list (concat p)))
     [[0, 0], [0, 0]] [[1, 2, 3], [4, 5, 6]] [1, 0] [[1, 0], [1, 1]] =
   compute_smplx_expression_loss (\<lambda>p g w. Inr (sum_list (concat p)))
     [[0, 0], [1, 1]] [[1, 2, 3], [0, 0, 0]] [1, 0] [[1, 0], [0, 0]]"
  using loss_terms_depend_on_valid_samples_only
    [where R = "map (\<lambda>(x, y, z). x)" and f = "\<lambda>(x, y, z). x"
       and W = "\<lambda>P S T. Inr (map (\<lambda>(p, s, t).
                   map (\<lambda>(x, y, z). (s * (x + fst t), s * (y + snd t))) p) (zip P (zip S T)))"
       and w = "\<lambda>p s t. map (\<lambda>(x, y, z). (s * (x + fst t), s * (y + snd t))) p"
       and ?h3.0 = "[1, 0]"
       and ?p3.0 = "[[(0, 0, 0), (1, 0, 0), (3, 0, 0)], [(5, 5, 5), (5, 5, 5), (5, 5, 5)]]"
       and p3' = "[[(0, 0, 0), (1, 0, 0), (3, 0, 0)], [(7, 7, 7), (8, 8, 8), (9, 9, 9)]]"
       and ?g3.0 = "[[(0, 0, 0, 1), (1, 0, 0, 1), (3, 0, 0, 1)],
                     [(0, 0, 0, 0), (0, 0, 0, 0), (0, 0, 0, 0)]]"
       and g3' = "[[(0, 0, 0, 1), (1, 0, 0, 1), (3, 0, 0, 1)],
                   [(9, 9, 9, 1), (9, 9, 9, 1), (9, 9, 9, 1)]]"
       and ?L3.0 = "\<lambda>p g w. Inr (real (length p))"
       and ?h2.0 = "[1, 0]"
       and ?p2.0 = "[[(0, 0, 0), (1, 0, 0), (3, 0, 0)], [(5, 5, 5), (5, 5, 5), (5, 5, 5)]]"
       and p2' = "[[(0, 0, 0), (1, 0, 0), (3, 0, 0)], [(7, 7, 7), (8, 8, 8), (9, 9, 9)]]"
       and ?c2.0 = "[(1, 0, 0), (1, 0, 0)]" and c2' = "[(1, 0, 0), (2, 1, 1)]"
       and ?g2.0 = "[[(0, 0, 1), (1, 1, 1), (2, 2, 1)], [(0, 0, 0), (0, 0, 0), (0, 0, 0)]]"
       and g2' = "[[(0, 0, 1), (1, 1, 1), (2, 2, 1)], [(4, 4, 1), (4, 4, 1), (4, 4, 1)]]"
       and ?L2.0 = "\<lambda>p g w. Inr (real (length p))" and res = 224
       and ho = "[1, 0]" and po = "[[0], [0]]" and po' = "[[0], [5]]"
       and go = "[[1, 2, 3], [4, 5, 6]]" and go' = "[[1, 2, 3], [0, 0, 0]]"
       and Lo = "\<lambda>p g. Inr (sum_list (concat g))"
       and hb = "[1, 0]" and pb = "[[0, 0], [0, 0]]" and pb' = "[[0, 0], [1, 1]]"
       and gb = "[[1, 2, 3, 4, 5, 6], [0, 0, 0, 0, 0, 0]]"
       and gb' = "[[1, 2, 3, 4, 5, 6], [9, 9, 9, 9, 9, 9]]"
       and Lb = "\<lambda>p g. Inr (sum_list (concat g))"
       and hj = "[1, 0]" and pj = "[[0], [0]]" and pj' = "[[0], [5]]"
       and gj = "[[1, 2, 3], [4, 5, 6]]" and gj' = "[[1, 2, 3], [0, 0, 0]]"
       and cj = "[[1, 0], [1, 1]]" and cj' = "[[1, 0], [0, 0]]"
       and Lj = "\<lambda>p g w. Inr (sum_list (concat g))"
       and hh = "[1, 0]" and ph = "[[0, 0], [0, 0]]" and ph' = "[[0, 0], [1, 1]]"
       and gh = "[[1, 2, 3, 4, 5, 6], [0, 0, 0, 0, 0, 0]]"
       and gh' = "[[1, 2, 3, 4, 5, 6], [9, 9, 9, 9, 9, 9]]"
       and ch = "[[1, 0], [1, 1]]" and ch' = "[[1, 0], [0, 0]]"
       and Lh = "\<lambda>p g w. Inr (sum_list (concat g))"
       and hs = "[1, 0]" and ps = "[[0, 0], [0, 0]]" and ps' = "[[0, 0], [1, 1]]"
       and gs = "[[1, 2, 3], [4, 5, 6]]" and gs' = "[[1, 2, 3], [0, 0, 0]]"
       and Ls = "\<lambda>p g. Inr (sum_list (concat p))"
       and he = "[1, 0]" and pe = "[[0, 0], [0, 0]]" and pe' = "[[0, 0], [1, 1]]"
       and ge = "[[1, 2, 3], [4, 5, 6]]" and ge' = "[[1, 2, 3], [0, 0, 0]]"
       and ce = "[[1, 0], [1, 1]]" and ce' = "[[1, 0], [0, 0]]"
       and Le = "\<lambda>p g w. Inr (sum_list (concat p))"]
  by (simp add: agree_where_valid_def shape_1_def)

subsection \<open>Empty selections and translations\<close>

lemma bool_index_no_valid:
  "length has = length x \<Longrightarrow> 1 \<notin> set has \<Longrightarrow>
   bool_index (map (\<lambda>v. v = (1::real)) has) x = Inr []"
  by (simp add: bool_index_flags valid_samples_none)

lemma numel_Nil [simp]: "numel [] = 0" "numel_tuples c [] = 0"
  by (simp_all add: numel_def numel_tuples_def)

lemma empty_kp3d:
  "length has = length gt \<Longrightarrow> 1 \<notin> set has \<Longrightarrow>
   compute_keypoints3d_loss L pred gt (Some has) = Inr 0"
  by (simp add: compute_keypoints3d_loss_def eq_one_def opt_bool_index_def bool_index_no_valid)

lemma empty_kp2d:
  "length has = length gt \<Longrightarrow> 1 \<notin> set has \<Longrightarrow>
   compute_keypoints2d_loss W L pred cam gt res (Some has) = Inr 0"
  by (simp add: compute_keypoints2d_loss_def eq_one_def opt_bool_index_def bool_index_no_valid)

lemma empty_body_pose:
  "length has = length gt \<Longrightarrow> 1 \<notin> set has \<Longrightarrow>
   compute_smplx_body_pose_loss R L pred gt has = Inr 0"
  by (simp add: compute_smplx_body_pose_loss_def bool_index_no_valid)

lemma empty_global_orient:
  "length has = length gt \<Longrightarrow> 1 \<notin> set has \<Longrightarrow>
   compute_smplx_global_orient_loss R L pred gt has = Inr 0"
  by (simp add: compute_smplx_global_orient_loss_def bool_index_no_valid)

lemma empty_jaw_pose:
  "length has = length gt \<Longrightarrow> 1 \<notin> set has \<Longrightarrow>
   compute_smplx_jaw_pose_loss R L pred gt has conf = Inr 0"
  by (simp add: compute_smplx_jaw_pose_loss_def bool_index_no_valid)

lemma empty_hand_pose:
  "length has = length gt \<Longrightarrow> 1 \<notin> set has \<Longrightarrow>
   compute_smplx_hand_pose_loss R L pred gt has conf = Inr 0"
  by (simp add: compute_smplx_hand_pose_loss_def bool_index_no_valid)

lemma empty_betas:
  "length has = length gt \<Longrightarrow> 1 \<notin> set has \<Longrightarrow>
   compute_smplx_betas_loss L pred gt has = Inr 0"
  by (simp add: compute_smplx_betas_loss_def bool_index_no_valid)

lemma empty_expression:
  "length has = length gt \<Longrightarrow> 1 \<notin> set has \<Longrightarrow>
   compute_smplx_expression_loss L pred gt has conf = Inr 0"
  by (simp add: compute_smplx_expression_loss_def bool_index_no_valid)











text \<open>
  C2. When no sample has its flag equal to 1 (and the flags are as many as the samples, so
  that the masked selection is defined and empty), each of the eight per-term functions
  returns the zero loss. This holds for every loss module and every imported helper,
  also for ones that raise on every input: the zero does not come from them.
\<close>

theorem empty_selection_gives_zero_loss:
  "1 \<notin> set has \<longrightarrow>
   (length has = length g3 \<longrightarrow> compute_keypoints3d_loss L3 p3 g3 (Some has) = Inr 0) \<and>
   (length has = length g2 \<longrightarrow>
      compute_keypoints2d_loss W L2 p2 c2 g2 res (Some has) = Inr 0) \<and>
   (length has = length gt \<longrightarrow>
      compute_smplx_body_pose_loss R Lb pb gt has = Inr 0 \<and>
      compute_smplx_global_orient_loss R Lo po gt has = Inr 0 \<and>
      compute_smplx_jaw_pose_loss R Lj pj gt has cj = Inr 0 \<and>
      compute_smplx_hand_pose_loss R Lh ph gt has ch = Inr 0 \<and>
      compute_smplx_betas_loss Ls ps gt has = Inr 0 \<and>
      compute_smplx_expression_loss Le pe gt has ce = Inr 0)"
  by (simp add: empty_kp3d empty_kp2d empty_body_pose empty_global_orient empty_jaw_pose
      empty_hand_pose empty_betas empty_expression)

text \<open>
  The hypotheses of C2 at the flags \<open>[0, 2]\<close>, with loss modules that raise whenever they
  are called.
\<close>

theorem empty_selection_gives_zero_loss_witness:
  "1 \<notin> set [0, 2::real] \<and>
   length [0, 2::real] = length [[(0, 0, 0, 1::real)], [(1, 1, 1, 1)]] \<and>
   compute_keypoints3d_loss (\<lambda>p g w. Inl TypeError) [[(0, 0, 0)], [(1, 1, 1)]]
     [[(0, 0, 0, 1)], [(1, 1, 1, 1)]] (Some [0, 2]) = Inr 0 \<and>
   compute_keypoints2d_loss (\<lambda>P S T. Inl RuntimeError) (\<lambda>p g w. Inl TypeError)
     [[(0, 0, 0)], [(1, 1, 1)]] [(1, 0, 0), (1, 0, 0)] [[(0, 0, 1)], [(1, 1, 1)]] 224
     (Some [0, 2]) = Inr 0 \<and>
   compute_smplx_body_pose_loss (\<lambda>rows. []) (\<lambda>p g. Inl TypeError)
     [[()], [()]] [[1, 2, 3], [4, 5, 6]] [0, 2] = Inr 0 \<and>
   compute_smplx_global_orient_loss (\<lambda>rows. []) (\<lambda>p g. Inl TypeError)
     [[()], [()]] [[1, 2, 3], [4, 5, 6]] [0, 2] = Inr 0 \<and>
   compute_smplx_jaw_pose_loss (\<lambda>rows. []) (\<lambda>p g w. Inl TypeError)
     [[()], [()]] [[1, 2, 3], [4, 5, 6]] [0, 2] [[1], [1]] = Inr 0 \<and>
   compute_smplx_hand_pose_loss (\<lambda>rows. []) (\<lambda>p g w. Inl TypeError)
     [[()], [()]] [[1, 2, 3], [4, 5, 6]] [0, 2] [[1], [1]] = Inr 0 \<and>
   compute_smplx_betas_loss (\<lambda>p g. Inl TypeError)
     [[1], [2]] [[1, 2, 3], [4, 5, 6]] [0, 2] = Inr 0 \<and>
   compute_smplx_expression_loss (\<lambda>p g w. Inl TypeError)
     [[1], [2]] [[1, 2, 3], [4, 5, 6]] [0, 2] [[1], [1]] = Inr 0"
  using empty_selection_gives_zero_loss
    [where has = "[0, 2]"
       and ?g3.0 = "[[(0, 0, 0, 1)], [(1, 1, 1, 1)]]"
       and ?p3.0 = "[[(0, 0, 0)], [(1, 1, 1)]]" and ?L3.0 = "\<lambda>p g w. Inl TypeError"
       and ?g2.0 = "[[(0, 0, 1)], [(1, 1, 1)]]" and ?p2.0 = "[[(0, 0, 0)], [(1, 1, 1)]]"
       and ?c2.0 = "[(1, 0, 0), (1, 0, 0)]" and res = 224
       and W = "\<lambda>P S T. Inl RuntimeError" and ?L2.0 = "\<lambda>p g w. Inl TypeError"
       and gt = "[[1, 2, 3], [4, 5, 6]]" and R = "\<lambda>rows. []"
       and pb = "[[()], [()]]" and Lb = "\<lambda>p g. Inl TypeError"
       and po = "[[()], [()]]" and Lo = "\<lambda>p g. Inl TypeError"
       and pj = "[[()], [()]]" and Lj = "\<lambda>p g w. Inl TypeError" and cj = "[[1], [1]]"
       and ph = "[[()], [()]]" and Lh = "\<lambda>p g w. Inl TypeError" and ch = "[[1], [1]]"
       and ps = "[[1], [2]]" and Ls = "\<lambda>p g. Inl TypeError"
       and pe = "[[1], [2]]" and Le = "\<lambda>p g w. Inl TypeError" and ce = "[[1], [1]]"]
  by simp


lemma keypoints3d_loss_example:
  "compute_keypoints3d_loss (\<lambda>p g w. Inr (fst (hd (hd p)) + fst (hd (hd g)) + fst (hd (hd w))))
     [[(0, 0, 0), (1, 1, 1), (3, 3, 3)], [(0, 0, 0), (1, 1, 1), (3, 3, 3)]]
     [[(10, 0, 0, 1), (11, 1, 1, 1), (13, 3, 3, 0)], [(0, 0, 0, 1), (1, 1, 1, 1), (3, 3, 3, 0)]]
     (Some [1, 1]) = Inr (- 3 / 2) \<and>
   compute_keypoints3d_loss (\<lambda>p g w. Inr (fst (hd (hd p)) + fst (hd (hd g)) + fst (hd (hd w))))
     (map (map (shift_xyz (100, 0, 0)))
        [[(0, 0, 0), (1, 1, 1), (3, 3, 3)], [(0, 0, 0), (1, 1, 1), (3, 3, 3)]])
     (map (map (shift_xyzc (0, 50, 0)))
        [[(10, 0, 0, 1), (11, 1, 1, 1), (13, 3, 3, 0)], [(0, 0, 0, 1), (1, 1, 1, 1), (3, 3, 3, 0)]])
     (Some [1, 1]) = Inr (- 3 / 2)"
  by (simp add: compute_keypoints3d_loss_def eq_one_def opt_bool_index_def bool_index_def
      numel_tuples_def mean_of_1_and_2_def subtract_per_sample_def minus_xyz_def
      shift_xyz_def shift_xyzc_def)

subsection \<open>The weights handed to the loss modules\<close>









subsection \<open>The dictionary compute_losses returns\<close>

lemma and_then_eq_Inr: "and_then r f = Inr v \<longleftrightarrow> (\<exists>u. r = Inr u \<and> f u = Inr v)"
  by (cases r) simp_all

lemma adds_only_refl: "adds_only K l l"
  by (simp add: adds_only_def)

lemma adds_only_update: "k \<in> K \<Longrightarrow> adds_only K l (AList.update k v l)"
  by (auto simp: adds_only_def AList.update_conv')

lemma adds_only_trans: "adds_only K l l' \<Longrightarrow> adds_only K' l' l'' \<Longrightarrow> adds_only (K \<union> K') l l''"
  by (auto simp: adds_only_def)

lemma and_thenE:
  assumes "and_then r f = Inr v"
  obtains u where "r = Inr u" and "f u = Inr v"
  using assms by (cases r) simp_all

lemma keypoints3d_block_adds:
  "keypoints3d_block self p g h l = Inr l' \<Longrightarrow> adds_only {''keypoints3d_loss''} l l'"
  by (auto simp: keypoints3d_block_def and_then_eq_Inr adds_only_refl adds_only_update
      split: option.splits)

lemma keypoints2d_block_adds:
  "keypoints2d_block imp self p c g t h l = Inr l' \<Longrightarrow> adds_only {''keypoints2d_loss''} l l'"
  by (auto simp: keypoints2d_block_def and_then_eq_Inr adds_only_refl adds_only_update
      split: option.splits)

lemma global_orient_block_adds:
  "global_orient_block imp self pp t l = Inr l' \<Longrightarrow> adds_only {''smplx_global_orient''} l l'"
  by (auto simp: global_orient_block_def and_then_eq_Inr adds_only_refl adds_only_update
      split: option.splits)

lemma body_pose_block_adds:
  "body_pose_block imp self pp t l = Inr l' \<Longrightarrow> adds_only {''smplx_body_pose_loss''} l l'"
  by (auto simp: body_pose_block_def and_then_eq_Inr adds_only_refl adds_only_update
      split: option.splits)

lemma jaw_pose_block_adds:
  "jaw_pose_block imp self pp g t l = Inr l' \<Longrightarrow> adds_only {''smplx_jaw_pose_loss''} l l'"
  by (auto simp: jaw_pose_block_def and_then_eq_Inr adds_only_refl adds_only_update
      split: option.splits)

lemma hand_pose_block_adds:
  "hand_pose_block imp self pp g t l = Inr l' \<Longrightarrow>
   adds_only {''smplx_right_hand_pose_loss'', ''smplx_left_hand_pose_loss''} l l'"
proof -
  assume a: "hand_pose_block imp self pp g t l = Inr l'"
  have r: "\<And>v. adds_only {''smplx_right_hand_pose_loss'', ''smplx_left_hand_pose_loss''} l
             (AList.update ''smplx_right_hand_pose_loss'' v l)"
    by (rule adds_only_update) simp
  have rl: "\<And>v w. adds_only {''smplx_right_hand_pose_loss'', ''smplx_left_hand_pose_loss''} l
             (AList.update ''smplx_left_hand_pose_loss'' w
                (AList.update ''smplx_right_hand_pose_loss'' v l))"
    using adds_only_trans [OF r adds_only_update, of "''smplx_left_hand_pose_loss''"
        "{''smplx_right_hand_pose_loss'', ''smplx_left_hand_pose_loss''}"]
    by simp
  from a show ?thesis
    by (auto simp: hand_pose_block_def and_then_eq_Inr adds_only_refl r rl Let_def
        split: option.splits)
qed

lemma betas_block_adds:
  "betas_block self pp t l = Inr l' \<Longrightarrow> adds_only {''smplx_betas_loss''} l l'"
  by (auto simp: betas_block_def and_then_eq_Inr adds_only_refl adds_only_update
      split: option.splits)

lemma expression_block_adds:
  "expression_block imp self pp g t l = Inr l' \<Longrightarrow> adds_only {''smplx_expression_loss''} l l'"
  by (auto simp: expression_block_def and_then_eq_Inr adds_only_refl adds_only_update
      split: option.splits)

lemma betas_prior_block_adds:
  "betas_prior_block self pp l = Inr l' \<Longrightarrow> adds_only {''smplx_betas_prior_loss''} l l'"
  by (auto simp: betas_prior_block_def and_then_eq_Inr adds_only_refl adds_only_update
      split: option.splits)

lemma camera_block_adds:
  "camera_block self pc l = Inr l' \<Longrightarrow> adds_only {''camera_loss''} l l'"
  by (auto simp: camera_block_def and_then_eq_Inr adds_only_refl adds_only_update
      split: option.splits)

lemma adds_only_mono: "adds_only K l l' \<Longrightarrow> K \<subseteq> K' \<Longrightarrow> adds_only K' l l'"
  by (auto simp: adds_only_def)

lemma adds_only_chain: "adds_only K l l' \<Longrightarrow> adds_only K l' l'' \<Longrightarrow> adds_only K l l''"
  using adds_only_trans [of K l l' K l''] by simp

lemma compute_losses_steps:
  assumes "compute_losses imp self predictions targets = Inr losses"
  shows "\<exists>pp pc g3 g2 pred l1 l2 l3 l4 l5 l6 l7 l8 l9.
    lookup ''keypoints3d'' (keypoints3d targets) = Inr g3
    \<and> keypoints3d_block self pred g3 (has_keypoints3d targets) [] = Inr l1
    \<and> keypoints2d_block imp self pred pc g2 targets (has_keypoints2d targets) l1 = Inr l2
    \<and> global_orient_block imp self pp targets l2 = Inr l3
    \<and> body_pose_block imp self pp targets l3 = Inr l4
    \<and> jaw_pose_block imp self pp g2 targets l4 = Inr l5
    \<and> hand_pose_block imp self pp g2 targets l5 = Inr l6
    \<and> betas_block self pp targets l6 = Inr l7
    \<and> expression_block imp self pp g2 targets l7 = Inr l8
    \<and> betas_prior_block self pp l8 = Inr l9
    \<and> camera_block self pc l9 = Inr losses"
  using assms unfolding compute_losses_def and_then_eq_Inr
  apply clarify
  apply (intro exI conjI)
  apply assumption+
  done

lemma compute_losses_blocks:
  assumes "compute_losses imp self predictions targets = Inr losses"
  shows "\<exists>pred pc g3 g2 l1 l2.
           keypoints3d_block self pred g3 (has_keypoints3d targets) [] = Inr l1 \<and>
           keypoints2d_block imp self pred pc g2 targets (has_keypoints2d targets) l1 = Inr l2 \<and>
           adds_only later_keys l2 losses"
proof -
  from compute_losses_steps [OF assms] obtain pp pc g3 g2 pred l1 l2 l3 l4 l5 l6 l7 l8 l9 where
    g3: "lookup ''keypoints3d'' (keypoints3d targets) = Inr g3"
    and b1: "keypoints3d_block self pred g3 (has_keypoints3d targets) [] = Inr l1"
    and b2: "keypoints2d_block imp self pred pc g2 targets (has_keypoints2d targets) l1 = Inr l2"
    and b3: "global_orient_block imp self pp targets l2 = Inr l3"
    and b4: "body_pose_block imp self pp targets l3 = Inr l4"
    and b5: "jaw_pose_block imp self pp g2 targets l4 = Inr l5"
    and b6: "hand_pose_block imp self pp g2 targets l5 = Inr l6"
    and b7: "betas_block self pp targets l6 = Inr l7"
    and b8: "expression_block imp self pp g2 targets l7 = Inr l8"
    and b9: "betas_prior_block self pp l8 = Inr l9"
    and b10: "camera_block self pc l9 = Inr losses"
    by (elim exE conjE)
  have s3: "adds_only later_keys l2 l3"
    using global_orient_block_adds [OF b3] by (rule adds_only_mono) (simp add: later_keys_def)
  have s4: "adds_only later_keys l3 l4"
    using body_pose_block_adds [OF b4] by (rule adds_only_mono) (simp add: later_keys_def)
  have s5: "adds_only later_keys l4 l5"
    using jaw_pose_block_adds [OF b5] by (rule adds_only_mono) (simp add: later_keys_def)
  have s6: "adds_only later_keys l5 l6"
    using hand_pose_block_adds [OF b6] by (rule adds_only_mono) (simp add: later_keys_def)
  have s7: "adds_only later_keys l6 l7"
    using betas_block_adds [OF b7] by (rule adds_only_mono) (simp add: later_keys_def)
  have s8: "adds_only later_keys l7 l8"
    using expression_block_adds [OF b8] by (rule adds_only_mono) (simp add: later_keys_def)
  have s9: "adds_only later_keys l8 l9"
    using betas_prior_block_adds [OF b9] by (rule adds_only_mono) (simp add: later_keys_def)
  have s10: "adds_only later_keys l9 losses"
    using camera_block_adds [OF b10] by (rule adds_only_mono) (simp add: later_keys_def)
  note c3 = s3
  note c4 = adds_only_chain [OF c3 s4]
  note c5 = adds_only_chain [OF c4 s5]
  note c6 = adds_only_chain [OF c5 s6]
  note c7 = adds_only_chain [OF c6 s7]
  note c8 = adds_only_chain [OF c7 s8]
  note c9 = adds_only_chain [OF c8 s9]
  note c10 = adds_only_chain [OF c9 s10]
  from b1 b2 c10 show ?thesis by blast
qed

lemma compute_losses_no_adv:
  assumes "compute_losses imp self predictions targets = Inr losses"
  shows "map_of losses ''adv_loss'' = None"
proof -
  from compute_losses_blocks [OF assms] obtain pred pc g3 g2 l1 l2 where
    b1: "keypoints3d_block self pred g3 (has_keypoints3d targets) [] = Inr l1"
    and b2: "keypoints2d_block imp self pred pc g2 targets (has_keypoints2d targets) l1 = Inr l2"
    and a: "adds_only later_keys l2 losses" by blast
  from keypoints3d_block_adds [OF b1] have "map_of l1 ''adv_loss'' = None"
    by (simp add: adds_only_def)
  with keypoints2d_block_adds [OF b2] have "map_of l2 ''adv_loss'' = None"
    by (simp add: adds_only_def)
  with a show ?thesis by (simp add: adds_only_def later_keys_def)
qed

lemma compute_losses_keypoints3d_none:
  assumes "compute_losses imp self predictions targets = Inr losses"
    and "has_keypoints3d targets = None" and "loss_keypoints3d self \<noteq> None"
  shows "map_of losses ''keypoints3d_loss'' = Some 0"
proof -
  from compute_losses_blocks [OF assms(1)] obtain pred pc g3 g2 l1 l2 where
    b1: "keypoints3d_block self pred g3 (has_keypoints3d targets) [] = Inr l1"
    and b2: "keypoints2d_block imp self pred pc g2 targets (has_keypoints2d targets) l1 = Inr l2"
    and a: "adds_only later_keys l2 losses" by blast
  from b1 assms(2,3) have "l1 = [(''keypoints3d_loss'', 0)]"
    by (auto simp: keypoints3d_block_def and_then_eq_Inr kp3d_none)
  with keypoints2d_block_adds [OF b2] have "map_of l2 ''keypoints3d_loss'' = Some 0"
    by (simp add: adds_only_def)
  with a show ?thesis by (simp add: adds_only_def later_keys_def)
qed

lemma compute_losses_keypoints2d_none:
  assumes "compute_losses imp self predictions targets = Inr losses"
    and "has_keypoints2d targets = None" and "loss_keypoints2d self \<noteq> None"
  shows "map_of losses ''keypoints2d_loss'' = Some 0"
proof -
  from compute_losses_blocks [OF assms(1)] obtain pred pc g3 g2 l1 l2 where
    b2: "keypoints2d_block imp self pred pc g2 targets (has_keypoints2d targets) l1 = Inr l2"
    and a: "adds_only later_keys l2 losses" by blast
  from b2 assms(2,3) have "l2 = AList.update ''keypoints2d_loss'' 0 l1"
    by (auto simp: keypoints2d_block_def and_then_eq_Inr keypoints2d_none)
  then have "map_of l2 ''keypoints2d_loss'' = Some 0"
    by (simp add: AList.update_conv')
  with a show ?thesis by (simp add: adds_only_def later_keys_def)
qed

subsection \<open>The calls of train_step\<close>

lemma next_do_Inr:
  "next_do m f t = (Inr v, t') \<longleftrightarrow> (\<exists>u t1. m t = (Inr u, t1) \<and> f u t1 = (Inr v, t'))"
  by (auto simp: next_do_def split: prod.splits sum.splits)

lemma call_Inr: "call e r t = (Inr v, t') \<longleftrightarrow> r = Inr v \<and> t' = t @ [e]"
  by (auto simp: call_def)

lemma result_of_Inr: "result_of r t = (Inr v, t') \<longleftrightarrow> r = Inr v \<and> t' = t"
  by (auto simp: result_of_def)

lemma done_with_Inr: "done_with x t = (Inr v, t') \<longleftrightarrow> v = x \<and> t' = t"
  by (auto simp: done_with_def)

lemmas action_Inr = next_do_Inr call_Inr result_of_Inr done_with_Inr

lemma optimize_discrinimator_trace:
  assumes "optimize_discrinimator imp self p b opt t = (Inr u, t')"
  shows "\<exists>dl ld. t' = t @ [Set_requires_grad_disc True, Make_fake_data False, Make_real_data,
           Forward ''disc'', Forward ''disc'', Loss_adv True True, Loss_adv False True,
           Parse_losses dl, Zero_grad ''disc'', Backward ld, Step ''disc'']"
  using assms unfolding optimize_discrinimator_def Let_def
  by (auto simp: action_Inr split: prod.splits)

lemma optimize_generator_trace:
  assumes "optimize_generator self p t = (Inr a, t')"
  shows "\<exists>l. a = [(''adv_loss'', l)] \<and>
           t' = t @ [Set_requires_grad_disc False, Make_fake_data True, Forward ''disc'',
                     Loss_adv True False]"
  using assms unfolding optimize_generator_def
  by (auto simp: action_Inr)

lemma when_present_trace:
  assumes "when_present m opt k e t = (Inr u, t')"
  shows "t' = t @ (case m of None \<Rightarrow> [] | Some _ \<Rightarrow> [e])"
  using assms unfolding when_present_def
  by (auto simp: action_Inr split: option.splits)

lemma backbone_trace:
  assumes "(case backbone self of
              None \<Rightarrow> result_of (lookup ''features'' (features batch))
            | Some b \<Rightarrow> next_do (result_of (lookup ''img'' (img batch)))
                         (\<lambda>image. call (Forward ''backbone'') (b (snd image)))) t = (Inr u, t')"
  shows "t' = t @ (case backbone self of None \<Rightarrow> [] | Some _ \<Rightarrow> [Forward ''backbone''])"
  using assms by (auto simp: action_Inr split: option.splits)

lemma neck_trace:
  assumes "(case neck self of None \<Rightarrow> done_with u
            | Some n \<Rightarrow> call (Forward ''neck'') (n u)) t = (Inr v, t')"
  shows "t' = t @ (case neck self of None \<Rightarrow> [] | Some _ \<Rightarrow> [Forward ''neck''])"
  using assms by (auto simp: action_Inr split: option.splits)

lemma train_step_steps:
  assumes "train_step imp self batch opt [] = (Inr out, tr)"
  shows "\<exists>predictions targets td losses0 losses tg.
     (case disc self of None \<Rightarrow> done_with ()
      | Some x \<Rightarrow> optimize_discrinimator imp self predictions batch opt)
       (forward_events self) = (Inr (), td) \<and>
     compute_losses imp self predictions targets = Inr losses0 \<and>
     (case disc self of None \<Rightarrow> done_with losses0
      | Some x \<Rightarrow> next_do (optimize_generator self predictions)
                    (\<lambda>adv_loss. done_with (dict_update losses0 adv_loss))) td = (Inr losses, tg) \<and>
     tr = tg @ Parse_losses losses # update_events self (loss out)"
  using assms unfolding train_step_def
  apply (clarsimp simp: action_Inr split: prod.splits)
  apply (drule when_present_trace)+
  apply (drule backbone_trace)
  apply (drule neck_trace)
  apply (simp add: forward_events_def update_events_def)
  apply (intro exI conjI)
  apply assumption+
  done

lemmas block_defs = keypoints3d_block_def keypoints2d_block_def global_orient_block_def
  body_pose_block_def jaw_pose_block_def hand_pose_block_def betas_block_def
  expression_block_def betas_prior_block_def camera_block_def

lemmas example_defs = example_globals_def example_predictions_def example_batch_def
  example_estimator_def

lemma example_compute_losses:
  "compute_losses example_globals example_estimator example_predictions
     (targets.truncate example_batch) =
   Inr [(''keypoints3d_loss'', 0), (''keypoints2d_loss'', 0)]"
  by (simp add: compute_losses_def block_defs example_defs lookup_def local_var_def
      targets.truncate_def kp3d_none keypoints2d_none shape_last_def)

lemma example_fields:
  "backbone example_estimator = None"
  "neck example_estimator = None"
  "head example_estimator = Some (\<lambda>f. Inr example_predictions)"
  "disc example_estimator = Some (\<lambda>d. Inr ())"
  "loss_adv example_estimator = Some (\<lambda>score target_is_real is_disc. Inr 1)"
  "prepare_targets example_estimator = (\<lambda>b. Inr (targets.truncate b))"
  "make_fake_data example_estimator = (\<lambda>p requires_grad. Inr ())"
  "make_real_data example_estimator = (\<lambda>b. Inr ())"
  "parse_losses example_globals = (\<lambda>l. Inr (sum_list (map snd l), ()))"
  "num_samples_of example_globals = (\<lambda>b. Inr 1)"
  "features example_batch = Some ()"
  by (simp_all add: example_defs)

lemma example_train_step:
  "train_step example_globals example_estimator example_batch [''head'', ''disc''] [] =
     (Inr \<lparr>loss = 1, log_vars = (), num_samples = 1\<rparr>,
      [Forward ''head'', Prepare_targets,
       Set_requires_grad_disc True, Make_fake_data False, Make_real_data,
       Forward ''disc'', Forward ''disc'', Loss_adv True True, Loss_adv False True,
       Parse_losses [(''real_loss'', 1), (''fake_loss'', 1)],
       Zero_grad ''disc'', Backward 2, Step ''disc'',
       Set_requires_grad_disc False, Make_fake_data True, Forward ''disc'',
       Loss_adv True False,
       Parse_losses [(''keypoints3d_loss'', 0), (''keypoints2d_loss'', 0), (''adv_loss'', 1)],
       Zero_grad ''head'', Backward 1, Step ''head''])"
  unfolding train_step_def optimize_discrinimator_def optimize_generator_def
  by (simp add: example_compute_losses example_fields next_do_def
      call_def result_of_def done_with_def callable_def lookup_def optimizer_at_def
      when_present_def dict_update_def)

lemma forward_events_facts:
  "Forward ''head'' \<in> set (forward_events self)"
  "Prepare_targets \<in> set (forward_events self)"
  "Step ''disc'' \<notin> set (forward_events self)"
  by (simp_all add: forward_events_def split: option.splits)

lemma update_events_facts:
  "Step ''disc'' \<notin> set (update_events self l)"
  "Parse_losses d \<notin> set (update_events self l)"
  by (simp_all add: update_events_def split: option.splits)

text \<open>
  C6. In a \<open>train_step\<close> that returns, the calls made are: the forward passes and
  \<open>prepare_targets\<close> (\<open>pre\<close>), then the adversarial part (\<open>mid\<close>), then the parsing of the
  generator's loss dictionary, then the update of the generator (\<open>post\<close>). Without a
  discriminator the adversarial part is empty, no discriminator step occurs anywhere, and
  the parsed dictionary has no \<open>adv_loss\<close> entry. With a discriminator the adversarial
  part is exactly the optimisation of the discriminator, ending in its optimizer step,
  followed by the generator's adversarial loss, and the parsed dictionary has an
  \<open>adv_loss\<close> entry.
\<close>

theorem train_step_adversarial_iff_disc:
  assumes run: "train_step imp self batch opt [] = (Inr out, tr)"
  shows "\<exists>pre mid losses post.
     tr = pre @ mid @ Parse_losses losses # post \<and>
     Forward ''head'' \<in> set pre \<and> Prepare_targets \<in> set pre \<and>
     Step ''disc'' \<notin> set pre \<and> Step ''disc'' \<notin> set post \<and>
     (\<forall>d. Parse_losses d \<notin> set post) \<and>
     (disc self = None \<longrightarrow> mid = [] \<and> map_of losses ''adv_loss'' = None) \<and>
     (disc self \<noteq> None \<longrightarrow>
        (\<exists>dl ld. mid =
           [Set_requires_grad_disc True, Make_fake_data False, Make_real_data,
            Forward ''disc'', Forward ''disc'', Loss_adv True True, Loss_adv False True,
            Parse_losses dl, Zero_grad ''disc'', Backward ld, Step ''disc'',
            Set_requires_grad_disc False, Make_fake_data True, Forward ''disc'',
            Loss_adv True False]) \<and>
        map_of losses ''adv_loss'' \<noteq> None)"
proof -
  from train_step_steps [OF run] obtain predictions targets td losses0 losses tg where
    d: "(case disc self of None \<Rightarrow> done_with ()
         | Some x \<Rightarrow> optimize_discrinimator imp self predictions batch opt)
          (forward_events self) = (Inr (), td)"
    and c: "compute_losses imp self predictions targets = Inr losses0"
    and g: "(case disc self of None \<Rightarrow> done_with losses0
         | Some x \<Rightarrow> next_do (optimize_generator self predictions)
                       (\<lambda>adv_loss. done_with (dict_update losses0 adv_loss))) td = (Inr losses, tg)"
    and t: "tr = tg @ Parse_losses losses # update_events self (loss out)"
    by (elim exE conjE)
  have na: "map_of losses0 ''adv_loss'' = None"
    using c by (rule compute_losses_no_adv)
  show ?thesis
  proof (cases "disc self")
    case None
    with d g have "td = forward_events self" and "losses = losses0" and "tg = td"
      by (simp_all add: done_with_Inr)
    with t have tr: "tr = forward_events self @ [] @ Parse_losses losses0 #
        update_events self (loss out)"
      by simp
    show ?thesis
      apply (rule exI [of _ "forward_events self"])
      apply (rule exI [of _ "[]"])
      apply (rule exI [of _ losses0])
      apply (rule exI [of _ "update_events self (loss out)"])
      apply (simp add: None na forward_events_facts update_events_facts)
      apply (rule tr [simplified])
      done
  next
    case (Some dm)
    with d have "optimize_discrinimator imp self predictions batch opt (forward_events self) =
        (Inr (), td)" by simp
    from optimize_discrinimator_trace [OF this] obtain dl ld where
      td: "td = forward_events self @ [Set_requires_grad_disc True, Make_fake_data False,
           Make_real_data, Forward ''disc'', Forward ''disc'', Loss_adv True True,
           Loss_adv False True, Parse_losses dl, Zero_grad ''disc'', Backward ld, Step ''disc'']"
      by blast
    from g Some obtain a where
      og: "optimize_generator self predictions td = (Inr a, tg)"
      and l: "losses = dict_update losses0 a"
      by (auto simp: next_do_Inr done_with_Inr)
    from optimize_generator_trace [OF og] obtain v where
      a: "a = [(''adv_loss'', v)]"
      and tg: "tg = td @ [Set_requires_grad_disc False, Make_fake_data True, Forward ''disc'',
                     Loss_adv True False]"
      by blast
    have ml: "map_of losses ''adv_loss'' \<noteq> None"
      using l a by (simp add: dict_update_def AList.update_conv')
    let ?mid = "[Set_requires_grad_disc True, Make_fake_data False, Make_real_data,
            Forward ''disc'', Forward ''disc'', Loss_adv True True, Loss_adv False True,
            Parse_losses dl, Zero_grad ''disc'', Backward ld, Step ''disc'',
            Set_requires_grad_disc False, Make_fake_data True, Forward ''disc'',
            Loss_adv True False]"
    have tr: "tr = forward_events self @ ?mid @ Parse_losses losses #
        update_events self (loss out)"
      using t td tg by simp
    show ?thesis
      apply (rule exI [of _ "forward_events self"])
      apply (rule exI [of _ ?mid])
      apply (rule exI [of _ losses])
      apply (rule exI [of _ "update_events self (loss out)"])
      apply (intro conjI impI)
             apply (rule tr)
            apply (simp_all add: Some ml forward_events_facts update_events_facts)
      done
  qed
qed

text \<open>
  The hypothesis of C6 at the concrete estimator, which has a discriminator: the step
  returns, with the calls listed, and the conclusion holds of that list.
\<close>

theorem train_step_adversarial_iff_disc_witness:
  "train_step example_globals example_estimator example_batch [''head'', ''disc''] [] =
     (Inr \<lparr>loss = 1, log_vars = (), num_samples = 1\<rparr>,
      [Forward ''head'', Prepare_targets,
       Set_requires_grad_disc True, Make_fake_data False, Make_real_data,
       Forward ''disc'', Forward ''disc'', Loss_adv True True, Loss_adv False True,
       Parse_losses [(''real_loss'', 1), (''fake_loss'', 1)],
       Zero_grad ''disc'', Backward 2, Step ''disc'',
       Set_requires_grad_disc False, Make_fake_data True, Forward ''disc'',
       Loss_adv True False,
       Parse_losses [(''keypoints3d_loss'', 0), (''keypoints2d_loss'', 0), (''adv_loss'', 1)],
       Zero_grad ''head'', Backward 1, Step ''head'']) \<and>
   disc example_estimator \<noteq> None \<and>
   (\<exists>pre mid losses post.
      [Forward ''head'', Prepare_targets,
       Set_requires_grad_disc True, Make_fake_data False, Make_real_data,
       Forward ''disc'', Forward ''disc'', Loss_adv True True, Loss_adv False True,
       Parse_losses [(''real_loss'', 1), (''fake_loss'', 1)],
       Zero_grad ''disc'', Backward 2, Step ''disc'',
       Set_requires_grad_disc False, Make_fake_data True, Forward ''disc'',
       Loss_adv True False,
       Parse_losses [(''keypoints3d_loss'', 0), (''keypoints2d_loss'', 0), (''adv_loss'', 1)],
       Zero_grad ''head'', Backward 1, Step ''head''] = pre @ mid @ Parse_losses losses # post \<and>
      Step ''disc'' \<in> set mid \<and> Step ''disc'' \<notin> set pre \<and> Step ''disc'' \<notin> set post \<and>
      (\<forall>d. Parse_losses d \<notin> set post) \<and>
      map_of losses ''adv_loss'' \<noteq> None)"
proof -
  let ?tr = "[Forward ''head'', Prepare_targets,
       Set_requires_grad_disc True, Make_fake_data False, Make_real_data,
       Forward ''disc'', Forward ''disc'', Loss_adv True True, Loss_adv False True,
       Parse_losses [(''real_loss'', 1), (''fake_loss'', 1)],
       Zero_grad ''disc'', Backward 2, Step ''disc'',
       Set_requires_grad_disc False, Make_fake_data True, Forward ''disc'',
       Loss_adv True False,
       Parse_losses [(''keypoints3d_loss'', 0), (''keypoints2d_loss'', 0), (''adv_loss'', 1)],
       Zero_grad ''head'', Backward 1, Step ''head'']"
  have d: "disc example_estimator \<noteq> None"
    by (simp add: example_fields)
  from train_step_adversarial_iff_disc [OF example_train_step]
  obtain pre mid losses post where
    t: "?tr = pre @ mid @ Parse_losses losses # post"
    and h: "Forward ''head'' \<in> set pre" "Prepare_targets \<in> set pre"
    and p: "Step ''disc'' \<notin> set pre" "Step ''disc'' \<notin> set post"
      "\<forall>d. Parse_losses d \<notin> set post"
    and n: "disc example_estimator = None \<longrightarrow>
              mid = [] \<and> map_of losses ''adv_loss'' = None"
    and i: "disc example_estimator \<noteq> None \<longrightarrow>
        (\<exists>dl ld. mid =
           [Set_requires_grad_disc True, Make_fake_data False, Make_real_data,
            Forward ''disc'', Forward ''disc'', Loss_adv True True, Loss_adv False True,
            Parse_losses dl, Zero_grad ''disc'', Backward ld, Step ''disc'',
            Set_requires_grad_disc False, Make_fake_data True, Forward ''disc'',
            Loss_adv True False]) \<and>
        map_of losses ''adv_loss'' \<noteq> None"
    by (elim exE conjE)
  from i d obtain dl ld where
    m: "mid =
           [Set_requires_grad_disc True, Make_fake_data False, Make_real_data,
            Forward ''disc'', Forward ''disc'', Loss_adv True True, Loss_adv False True,
            Parse_losses dl, Zero_grad ''disc'', Backward ld, Step ''disc'',
            Set_requires_grad_disc False, Make_fake_data True, Forward ''disc'',
            Loss_adv True False]"
    and a: "map_of losses ''adv_loss'' \<noteq> None"
    by blast
  from m have s: "Step ''disc'' \<in> set mid" by simp
  have "?tr = pre @ mid @ Parse_losses losses # post \<and>
      Step ''disc'' \<in> set mid \<and> Step ''disc'' \<notin> set pre \<and> Step ''disc'' \<notin> set post \<and>
      (\<forall>d. Parse_losses d \<notin> set post) \<and>
      map_of losses ''adv_loss'' \<noteq> None"
    by (intro conjI) (rule t s p a)+
  then have "\<exists>pre mid losses post. ?tr = pre @ mid @ Parse_losses losses # post \<and>
      Step ''disc'' \<in> set mid \<and> Step ''disc'' \<notin> set pre \<and> Step ''disc'' \<notin> set post \<and>
      (\<forall>d. Parse_losses d \<notin> set post) \<and>
      map_of losses ''adv_loss'' \<noteq> None"
    by - (rule exI)+
  with example_train_step d show ?thesis by (intro conjI)
qed

subsection \<open>Absent flags and confidence weights\<close>

text \<open>
  C8. With \<open>has_keypoints3d\<close> equal to \<open>None\<close>, \<open>compute_keypoints3d_loss\<close> returns the zero
  loss for every input, and likewise \<open>compute_keypoints2d_loss\<close> with \<open>has_keypoints2d\<close>
  equal to \<open>None\<close>. Accordingly, when the targets have no \<open>has_keypoints3d\<close> key
  (respectively no \<open>has_keypoints2d\<close> key), the term is configured and \<open>compute_losses\<close>
  returns, the entry \<open>keypoints3d_loss\<close> (respectively \<open>keypoints2d_loss\<close>) of the
  returned dictionary is zero.
\<close>

theorem keypoint_losses_zero_without_flags:
  "compute_keypoints3d_loss L3 p3 g3 None = Inr 0 \<and>
   compute_keypoints2d_loss W L2 p2 c2 g2 res None = Inr 0 \<and>
   (compute_losses imp self predictions targets = Inr losses \<longrightarrow>
      (has_keypoints3d targets = None \<and> loss_keypoints3d self \<noteq> None \<longrightarrow>
         map_of losses ''keypoints3d_loss'' = Some 0) \<and>
      (has_keypoints2d targets = None \<and> loss_keypoints2d self \<noteq> None \<longrightarrow>
         map_of losses ''keypoints2d_loss'' = Some 0))"
  using compute_losses_keypoints3d_none [of imp self predictions targets losses]
    compute_losses_keypoints2d_none [of imp self predictions targets losses]
  by (simp add: kp3d_none keypoints2d_none)

text \<open>
  The hypotheses of C8 at the concrete estimator and batch, whose targets carry neither
  flag.
\<close>

theorem keypoint_losses_zero_without_flags_witness:
  "compute_losses example_globals example_estimator example_predictions
     (targets.truncate example_batch) =
     Inr [(''keypoints3d_loss'', 0), (''keypoints2d_loss'', 0)] \<and>
   has_keypoints3d (targets.truncate example_batch) = None \<and>
   loss_keypoints3d example_estimator \<noteq> None \<and>
   has_keypoints2d (targets.truncate example_batch) = None \<and>
   loss_keypoints2d example_estimator \<noteq> None \<and>
   map_of [(''keypoints3d_loss'', 0), (''keypoints2d_loss'', 0::real)] ''keypoints3d_loss'' = Some 0 \<and>
   map_of [(''keypoints3d_loss'', 0), (''keypoints2d_loss'', 0::real)] ''keypoints2d_loss'' = Some 0"
  using keypoint_losses_zero_without_flags
    [where imp = example_globals and self = example_estimator
       and predictions = example_predictions and targets = "targets.truncate example_batch"
       and losses = "[(''keypoints3d_loss'', 0), (''keypoints2d_loss'', 0)]"]
    example_compute_losses
  by (simp add: example_defs targets.truncate_def)




end
